theory Spec2Isabelle
  imports Main "HOL-Library.Sublist"
begin

section \<open>Python strings\<close>

text \<open>
  A Python \<open>str\<close> is a sequence of Unicode code points, so it is modelled as a list of
  natural numbers. \<open>lit\<close> turns an ASCII literal into such a string; the rupee sign
  U+20B9, which the scraper searches for and strips, is the code point 8377.
\<close>

type_synonym pystr = "nat list"

definition lit :: "string \<Rightarrow> pystr" where
  "lit s = map of_char s"

definition rupee :: nat where
  "rupee = 8377"

text \<open>The code points \<open>str.strip()\<close> removes (Python's \<open>str.isspace\<close>).\<close>

definition py_isspace :: "nat \<Rightarrow> bool" where
  "py_isspace c \<longleftrightarrow>
     (9 \<le> c \<and> c \<le> 13) \<or> (28 \<le> c \<and> c \<le> 32) \<or> c = 133 \<or> c = 160 \<or> c = 5760 \<or>
     (8192 \<le> c \<and> c \<le> 8202) \<or> c = 8232 \<or> c = 8233 \<or> c = 8239 \<or> c = 8287 \<or> c = 12288"

definition strip :: "pystr \<Rightarrow> pystr" where
  "strip s = rev (dropWhile py_isspace (rev (dropWhile py_isspace s)))"

text \<open>\<open>s.replace(c, "")\<close> for a one-character \<open>c\<close>.\<close>

definition remove_char :: "nat \<Rightarrow> pystr \<Rightarrow> pystr" where
  "remove_char c s = filter (\<lambda>x. x \<noteq> c) s"

text \<open>\<open>pat in s\<close>: \<open>pat\<close> occurs in \<open>s\<close> as a contiguous run.\<close>

definition py_in :: "pystr \<Rightarrow> pystr \<Rightarrow> bool" where
  "py_in pat s = sublist pat s"

text \<open>
  Case mapping is modelled on the ASCII letters; other code points are left as they are.
  The scraper uses \<open>upper\<close> only to compare with \<open>"NA"\<close> (no other code point
  upper-cases to \<open>N\<close> or \<open>A\<close>), and \<open>title\<close> and the case-insensitive search only
  on its own ASCII labels.
\<close>

definition is_lower :: "nat \<Rightarrow> bool" where
  "is_lower c \<longleftrightarrow> 97 \<le> c \<and> c \<le> 122"

definition is_upper :: "nat \<Rightarrow> bool" where
  "is_upper c \<longleftrightarrow> 65 \<le> c \<and> c \<le> 90"

definition upper :: "pystr \<Rightarrow> pystr" where
  "upper s = map (\<lambda>c. if is_lower c then c - 32 else c) s"

definition lower :: "pystr \<Rightarrow> pystr" where
  "lower s = map (\<lambda>c. if is_upper c then c + 32 else c) s"

text \<open>\<open>str.title()\<close>: a letter is upper-cased after a non-letter and lower-cased after a letter.\<close>

fun title_from :: "bool \<Rightarrow> pystr \<Rightarrow> pystr" where
  "title_from prev [] = []"
| "title_from prev (c # cs) =
     (if is_lower c then (if prev then c else c - 32) # title_from True cs
      else if is_upper c then (if prev then c + 32 else c) # title_from True cs
      else c # title_from False cs)"

definition title :: "pystr \<Rightarrow> pystr" where
  "title s = title_from False s"

text \<open>\<open>s.replace("_", " ")\<close>.\<close>

definition underscores_to_spaces :: "pystr \<Rightarrow> pystr" where
  "underscores_to_spaces s = map (\<lambda>c. if c = 95 then 32 else c) s"

text \<open>\<open>s.split(",")\<close>: never empty; \<open>"".split(",")\<close> is \<open>[""]\<close>.\<close>

fun split_on :: "nat \<Rightarrow> pystr \<Rightarrow> pystr list" where
  "split_on c [] = [[]]"
| "split_on c (x # xs) =
     (if x = c then [] # split_on c xs
      else (case split_on c xs of [] \<Rightarrow> [[x]] | w # ws \<Rightarrow> (x # w) # ws))"

text \<open>\<open>str(n)\<close> for an integer, and the \<open>{...}\<close> of an f-string for a value that may be \<open>None\<close>.\<close>

fun str_nat :: "nat \<Rightarrow> pystr" where
  "str_nat n = (if n < 10 then [48 + n] else str_nat (n div 10) @ [48 + n mod 10])"

declare str_nat.simps [simp del]

definition str_int :: "int \<Rightarrow> pystr" where
  "str_int i = (if i < 0 then 45 # str_nat (nat (- i)) else str_nat (nat i))"

definition fmt_int :: "int option \<Rightarrow> pystr" where
  "fmt_int v = (case v of None \<Rightarrow> lit ''None'' | Some i \<Rightarrow> str_int i)"

definition fmt_str :: "pystr option \<Rightarrow> pystr" where
  "fmt_str v = (case v of None \<Rightarrow> lit ''None'' | Some s \<Rightarrow> s)"

section \<open>The fetcher\<close>

definition BASE_URL :: pystr where
  "BASE_URL = lit ''https://eproc.rajasthan.gov.in''"

definition MAIN_URL :: pystr where
  "MAIN_URL = BASE_URL @ lit ''/nicgep/app?page=FrontEndTendersByOrganisation&service=page''"

definition restart_url :: pystr where
  "restart_url = BASE_URL @ lit ''/nicgep/app?service=restart''"

definition timed_out :: pystr where
  "timed_out = lit ''Your session has timed out''"

text \<open>
  \<open>session.get\<close> either raises a \<open>requests.RequestException\<close> or returns a response
  with a status code and a body. The portal and the session's cookies are the world \<open>'w\<close>;
  a request may change it. The portal is a parameter of the model.
\<close>

datatype reply = RequestException | Response nat pystr

type_synonym 'w net = "'w \<Rightarrow> pystr \<Rightarrow> reply \<times> 'w"

text \<open>The effects of a run, in program order.\<close>

datatype event =
    Get pystr
  | FindOne pystr bool
  | InsertOne pystr
  | Append pystr
  | WriteFile pystr pystr
  | SendEmail pystr

record 'w state =
  world :: 'w
  tender_collection :: "pystr list"
  email_body :: pystr
  failed_tender_html :: "(pystr \<times> pystr) list"
  trace :: "event list"

definition session_get :: "'w net \<Rightarrow> pystr \<Rightarrow> 'w state \<Rightarrow> reply \<times> 'w state" where
  "session_get net url st =
     (case net (world st) url of
        (r, w) \<Rightarrow> (r, st\<lparr>world := w, trace := trace st @ [Get url]\<rparr>))"

text \<open>\<open>response.raise_for_status()\<close> raises \<open>HTTPError\<close> for the codes 400 to 599.\<close>

definition raise_for_status :: "nat \<Rightarrow> bool" where
  "raise_for_status code \<longleftrightarrow> 400 \<le> code \<and> code < 600"

text \<open>\<open>fetch_page\<close>: \<open>None\<close> is the \<open>except requests.RequestException\<close> branch.\<close>

definition fetch_page :: "'w net \<Rightarrow> pystr \<Rightarrow> 'w state \<Rightarrow> pystr option \<times> 'w state" where
  "fetch_page net url st =
     (case session_get net url st of
        (RequestException, st1) \<Rightarrow> (None, st1)
      | (Response code body, st1) \<Rightarrow>
          if raise_for_status code then (None, st1)
          else if py_in timed_out body then
            (case session_get net restart_url st1 of
               (RequestException, st2) \<Rightarrow> (None, st2)
             | (Response rcode rbody, st2) \<Rightarrow>
                 (case session_get net url st2 of
                    (RequestException, st3) \<Rightarrow> (None, st3)
                  | (Response code' body', st3) \<Rightarrow>
                      if raise_for_status code' then (None, st3) else (Some body', st3)))
          else (Some body, st1))"

section \<open>\<open>int(float(s))\<close>\<close>

text \<open>The exceptions of the run that the scraper does or does not catch.\<close>

datatype pyerr = ValueError | OverflowError | IndexError | OSError

text \<open>
  A Python \<open>float\<close> is an IEEE 754 binary64 number. A finite one is kept as sign, integer
  significand \<open>m\<close> and binary exponent \<open>e\<close>, standing for \<open>m * 2 ^ e\<close>.
\<close>

datatype pyfloat = Finite bool nat int | Infinite bool | NaN

fun bits :: "nat \<Rightarrow> nat" where
  "bits n = (if n = 0 then 0 else Suc (bits (n div 2)))"

declare bits.simps [simp del]

text \<open>\<open>ilog2 n d\<close> is the integer part of the binary logarithm of \<open>n / d\<close>, for positive \<open>n\<close> and \<open>d\<close>.\<close>

definition ilog2 :: "nat \<Rightarrow> nat \<Rightarrow> int" where
  "ilog2 n d =
     (let k = int (bits n) - int (bits d)
      in if (if 0 \<le> k then d * 2 ^ nat k \<le> n else d \<le> n * 2 ^ nat (- k)) then k else k - 1)"

text \<open>
  \<open>binary64 neg n d\<close> is the binary64 number nearest to \<open>n / d\<close>, ties to the even
  significand, as Python's correctly rounded string conversion gives it: 53 bits of
  significand for a normal number, the fixed exponent \<open>-1074\<close> for a subnormal one, and
  infinity from \<open>2 ^ 1024\<close> on.
\<close>

definition binary64 :: "bool \<Rightarrow> nat \<Rightarrow> nat \<Rightarrow> pyfloat" where
  "binary64 neg n d =
     (if n = 0 then Finite neg 0 0
      else
        let e = max (ilog2 n d) (- 1022) - 52;
            num = (if 0 \<le> e then n else n * 2 ^ nat (- e));
            den = (if 0 \<le> e then d * 2 ^ nat e else d);
            q = num div den;
            r = num mod den;
            m = (if 2 * r < den then q else if den < 2 * r then q + 1
                 else if even q then q else q + 1)
        in if 1024 < int (bits m) + e then Infinite neg else Finite neg m e)"

text \<open>\<open>int(x)\<close> truncates toward zero; it raises on an infinity and on a NaN.\<close>

definition py_int :: "pyfloat \<Rightarrow> pyerr + int" where
  "py_int x =
     (case x of
        Infinite neg \<Rightarrow> Inl OverflowError
      | NaN \<Rightarrow> Inl ValueError
      | Finite neg m e \<Rightarrow>
          (let a = (if 0 \<le> e then m * 2 ^ nat e else m div 2 ^ nat (- e))
           in Inr (if neg then - int a else int a)))"

text \<open>
  \<open>float(s)\<close> of a string. CPython turns the string into ASCII (from the code point 127
  on, a Unicode space becomes a blank, a decimal digit of any script the ASCII digit of
  its value, and anything else a \<open>?\<close>), strips ASCII blanks, deletes the underscores that
  stand between two digits, and reads a sign, then \<open>inf\<close>, \<open>infinity\<close> or \<open>nan\<close> in any
  case, or digits with an optional point and an optional exponent; every character must be
  used.

  \<open>digit_zeros\<close> lists the code point of the digit zero of every run of ten decimal digits
  (general category \<open>Nd\<close>) of Unicode 14, the table of CPython 3.11: ASCII,
  Arabic-Indic, Devanagari and so on.
\<close>

definition digit_zeros :: "nat list" where
  "digit_zeros =
     [48, 1632, 1776, 1984, 2406, 2534, 2662, 2790, 2918, 3046, 3174, 3302, 3430, 3558,
      3664, 3792, 3872, 4160, 4240, 6112, 6160, 6470, 6608, 6784, 6800, 6992, 7088, 7232,
      7248, 42528, 43216, 43264, 43472, 43504, 43600, 44016, 65296,
      66720, 68912, 69734, 69872, 69942, 70096, 70384, 70736, 70864, 71248, 71360, 71472,
      71904, 72016, 72784, 73040, 73120, 92768, 92864, 93008,
      120782, 120792, 120802, 120812, 120822, 123200, 123632, 125264, 130032]"

definition unicode_decimal :: "nat \<Rightarrow> nat option" where
  "unicode_decimal c =
     (case filter (\<lambda>z. z \<le> c \<and> c < z + 10) digit_zeros of
        [] \<Rightarrow> None
      | z # zs \<Rightarrow> Some (c - z))"

definition is_digit :: "nat \<Rightarrow> bool" where
  "is_digit c \<longleftrightarrow> 48 \<le> c \<and> c \<le> 57"

definition digits_val :: "pystr \<Rightarrow> nat" where
  "digits_val ds = foldl (\<lambda>a c. 10 * a + (c - 48)) 0 ds"

definition to_ascii :: "nat \<Rightarrow> nat" where
  "to_ascii c =
     (if c < 127 then c
      else if py_isspace c then 32
      else (case unicode_decimal c of None \<Rightarrow> 63 | Some d \<Rightarrow> 48 + d))"

definition c_isspace :: "nat \<Rightarrow> bool" where
  "c_isspace c \<longleftrightarrow> (9 \<le> c \<and> c \<le> 13) \<or> c = 32"

definition c_strip :: "pystr \<Rightarrow> pystr" where
  "c_strip s = rev (dropWhile c_isspace (rev (dropWhile c_isspace s)))"

fun del_underscores :: "nat \<Rightarrow> pystr \<Rightarrow> pystr option" where
  "del_underscores prev [] = (if prev = 95 then None else Some [])"
| "del_underscores prev (c # cs) =
     (if c = 95 then (if is_digit prev then del_underscores c cs else None)
      else if prev = 95 \<and> \<not> is_digit c then None
      else map_option (Cons c) (del_underscores c cs))"

definition parse_sign :: "pystr \<Rightarrow> bool \<times> pystr" where
  "parse_sign s =
     (case s of
        [] \<Rightarrow> (False, [])
      | c # r \<Rightarrow> if c = 45 then (True, r) else if c = 43 then (False, r) else (False, s))"

text \<open>What follows the digits: nothing, or \<open>e\<close> or \<open>E\<close>, an optional sign and digits.\<close>

definition parse_exponent :: "pystr \<Rightarrow> int option" where
  "parse_exponent r =
     (case r of
        [] \<Rightarrow> Some 0
      | c # r1 \<Rightarrow>
          if c = 101 \<or> c = 69 then
            (case parse_sign r1 of
               (neg, ds) \<Rightarrow>
                 if ds \<noteq> [] \<and> list_all is_digit ds
                 then Some (if neg then - int (digits_val ds) else int (digits_val ds))
                 else None)
          else None)"

text \<open>The number \<open>m * 10 ^ e\<close> as a binary64.\<close>

definition decimal64 :: "bool \<Rightarrow> nat \<Rightarrow> int \<Rightarrow> pyfloat" where
  "decimal64 neg m e =
     (if 0 \<le> e then binary64 neg (m * 10 ^ nat e) 1 else binary64 neg m (10 ^ nat (- e)))"

definition py_float :: "pystr \<Rightarrow> pyerr + pyfloat" where
  "py_float s =
     (case del_underscores 0 (c_strip (map to_ascii s)) of
        None \<Rightarrow> Inl ValueError
      | Some t \<Rightarrow>
          (case parse_sign t of
             (neg, body) \<Rightarrow>
               if lower body = lit ''inf'' \<or> lower body = lit ''infinity'' then Inr (Infinite neg)
               else if lower body = lit ''nan'' then Inr NaN
               else
                 let ip = takeWhile is_digit body;
                     r1 = dropWhile is_digit body;
                     fp = (case r1 of [] \<Rightarrow> [] | c # r \<Rightarrow>
                             if c = 46 then takeWhile is_digit r else []);
                     r2 = (case r1 of [] \<Rightarrow> [] | c # r \<Rightarrow>
                             if c = 46 then dropWhile is_digit r else r1)
                 in if ip = [] \<and> fp = [] then Inl ValueError
                    else
                      (case parse_exponent r2 of
                         None \<Rightarrow> Inl ValueError
                       | Some ex \<Rightarrow>
                           Inr (decimal64 neg (digits_val (ip @ fp)) (ex - int (length fp))))))"

section \<open>Parsed pages\<close>

text \<open>
  BeautifulSoup and \<open>html.parser\<close> are not part of the scraper: the parser is a parameter
  \<open>bs\<close> of the model, from the page text to the parsed tree. A tree is made of elements
  (name, the tokens of the \<open>class\<close> attribute, which BeautifulSoup keeps as a list, the
  other attributes, children) and of text. The \<open>BeautifulSoup\<close> object is the root
  element.
\<close>

datatype node = Tag pystr "pystr list" "(pystr \<times> pystr) list" "node list" | Text pystr

type_synonym parser = "pystr \<Rightarrow> node"

fun named :: "pystr \<Rightarrow> node \<Rightarrow> bool" where
  "named nm (Tag n cl ats cs) = (n = nm)"
| "named nm (Text s) = False"

fun has_class :: "pystr \<Rightarrow> node \<Rightarrow> bool" where
  "has_class c (Tag n cl ats cs) = (c \<in> set cl)"
| "has_class c (Text s) = False"

fun attr :: "pystr \<Rightarrow> node \<Rightarrow> pystr option" where
  "attr k (Tag n cl ats cs) = map_of ats k"
| "attr k (Text s) = None"

text \<open>The descendants of an element in document order, as \<open>find_all\<close> walks them.\<close>

fun descendants :: "node \<Rightarrow> node list" where
  "descendants (Text s) = []"
| "descendants (Tag n cl ats cs) = concat (map (\<lambda>c. c # descendants c) cs)"

definition find_all :: "pystr \<Rightarrow> node \<Rightarrow> node list" where
  "find_all nm n = filter (named nm) (descendants n)"

definition find_all_class :: "pystr \<Rightarrow> pystr \<Rightarrow> node \<Rightarrow> node list" where
  "find_all_class nm c n = filter (\<lambda>x. named nm x \<and> has_class c x) (descendants n)"

definition first :: "'a list \<Rightarrow> 'a option" where
  "first xs = (case xs of [] \<Rightarrow> None | x # r \<Rightarrow> Some x)"

text \<open>\<open>get_text(strip=True)\<close>: the text pieces, each stripped, the empty ones dropped.\<close>

fun strings :: "node \<Rightarrow> pystr list" where
  "strings (Text s) = [s]"
| "strings (Tag n cl ats cs) = concat (map strings cs)"

definition get_text :: "node \<Rightarrow> pystr" where
  "get_text n = concat (filter (\<lambda>s. s \<noteq> []) (map strip (strings n)))"

text \<open>\<open>tag.string\<close>: the text of an element whose only child is a text or has a \<open>string\<close>.\<close>

fun string_of :: "node \<Rightarrow> pystr option" where
  "string_of (Text s) = Some s"
| "string_of (Tag n cl ats []) = None"
| "string_of (Tag n cl ats [c]) = string_of c"
| "string_of (Tag n cl ats (c # d # cs)) = None"

text \<open>
  A node found from the root keeps its place: the siblings after it and its ancestors,
  nearest first, each with the siblings after it.
\<close>

record loc =
  here :: node
  after :: "node list"
  above :: "(node \<times> node list) list"

text \<open>
  \<open>find\<close>: the first node in document order that passes the test, that is the node
  itself before its descendants and those before the siblings after it.
\<close>

fun search_node :: "(node \<Rightarrow> bool) \<Rightarrow> (node \<times> node list) list \<Rightarrow> node \<Rightarrow> node list \<Rightarrow> loc option"
  and search_list :: "(node \<Rightarrow> bool) \<Rightarrow> (node \<times> node list) list \<Rightarrow> node list \<Rightarrow> loc option" where
  "search_node P anc (Text s) sibs =
     (if P (Text s) then Some \<lparr>here = Text s, after = sibs, above = anc\<rparr> else None)"
| "search_node P anc (Tag n cl ats cs) sibs =
     (if P (Tag n cl ats cs) then Some \<lparr>here = Tag n cl ats cs, after = sibs, above = anc\<rparr>
      else search_list P ((Tag n cl ats cs, sibs) # anc) cs)"
| "search_list P anc [] = None"
| "search_list P anc (c # cs) =
     (case search_node P anc c cs of
        Some l \<Rightarrow> Some l
      | None \<Rightarrow> search_list P anc cs)"

definition find_first :: "(node \<Rightarrow> bool) \<Rightarrow> node \<Rightarrow> loc option" where
  "find_first P soup =
     (case soup of Text s \<Rightarrow> None | Tag n cl ats cs \<Rightarrow> search_list P [(soup, [])] cs)"

definition find_tag :: "pystr \<Rightarrow> node \<Rightarrow> node option" where
  "find_tag nm n = map_option here (find_first (named nm) n)"

text \<open>\<open>soup.find(name, string=f)\<close>: the first element of that name whose \<open>string\<close> passes \<open>f\<close>.\<close>

definition string_passes :: "(pystr \<Rightarrow> bool) \<Rightarrow> node \<Rightarrow> bool" where
  "string_passes f n = (case string_of n of None \<Rightarrow> False | Some t \<Rightarrow> f t)"

definition find_string :: "pystr \<Rightarrow> (pystr \<Rightarrow> bool) \<Rightarrow> node \<Rightarrow> loc option" where
  "find_string nm f soup = find_first (\<lambda>x. named nm x \<and> string_passes f x) soup"

definition find_parent :: "pystr \<Rightarrow> loc \<Rightarrow> (node \<times> node list) option" where
  "find_parent nm l = first (filter (\<lambda>p. named nm (fst p)) (above l))"

definition find_next_sibling :: "pystr \<Rightarrow> node list \<Rightarrow> node option" where
  "find_next_sibling nm sibs = first (filter (named nm) sibs)"

section \<open>The structural extractor\<close>

definition list_table :: pystr where
  "list_table = lit ''list_table''"

text \<open>\<open>get_department_table\<close>: the third table of class \<open>list_table\<close>.\<close>

definition get_department_table :: "parser \<Rightarrow> pystr \<Rightarrow> node option" where
  "get_department_table bs html =
     (let soup = bs html;
          tables = find_all_class (lit ''table'') list_table soup
      in if tables = [] \<or> length tables < 3 then None else Some (tables ! 2))"

text \<open>The link of a cell: \<open>BASE_URL\<close> and the stripped \<open>href\<close> of its first \<open>a\<close>, if it has one.\<close>

definition cell_link :: "node \<Rightarrow> pystr option" where
  "cell_link cell =
     (case find_tag (lit ''a'') cell of
        None \<Rightarrow> None
      | Some a_tag \<Rightarrow>
          (case attr (lit ''href'') a_tag of
             None \<Rightarrow> None
           | Some href \<Rightarrow> Some (BASE_URL @ strip href)))"

text \<open>\<open>extract_department_link\<close>: the loop over the rows stops at the first row that returns.\<close>

fun department_rows :: "node list \<Rightarrow> pystr \<Rightarrow> pystr option" where
  "department_rows [] dept_name = None"
| "department_rows (row # rows) dept_name =
     (let cells = find_all (lit ''td'') row
      in if length cells < 3 then department_rows rows dept_name
         else if get_text (cells ! 1) = dept_name then
           (case cell_link (cells ! 2) of
              Some full_link \<Rightarrow> Some full_link
            | None \<Rightarrow> department_rows rows dept_name)
         else department_rows rows dept_name)"

definition extract_department_link :: "node \<Rightarrow> pystr \<Rightarrow> pystr option" where
  "extract_department_link department_table dept_name =
     department_rows (find_all (lit ''tr'') department_table) dept_name"

text \<open>
  \<open>get_tender_links_from_org_page\<close>: \<open>find_all(...)[0]\<close> raises \<open>IndexError\<close> when the
  page has no table of class \<open>list_table\<close>.
\<close>

fun tender_rows :: "node list \<Rightarrow> pystr list" where
  "tender_rows [] = []"
| "tender_rows (row # rows) =
     (let cells = find_all (lit ''td'') row
      in if length cells < 5 then tender_rows rows
         else (case cell_link (cells ! 4) of
                 Some full_link \<Rightarrow> full_link # tender_rows rows
               | None \<Rightarrow> tender_rows rows))"

definition get_tender_links_from_org_page :: "parser \<Rightarrow> pystr \<Rightarrow> pyerr + pystr list" where
  "get_tender_links_from_org_page bs org_html =
     (let soup = bs org_html
      in case find_all_class (lit ''table'') list_table soup of
           [] \<Rightarrow> Inl IndexError
         | table # others \<Rightarrow> Inr (tender_rows (find_all (lit ''tr'') table)))"

text \<open>\<open>get_tender_dates\<close>: the dictionary keeps its keys in the order written.\<close>

definition extract_date :: "node \<Rightarrow> pystr \<Rightarrow> pystr option" where
  "extract_date soup label =
     (case find_string (lit ''b'') (\<lambda>t. t \<noteq> [] \<and> py_in label t) soup of
        None \<Rightarrow> None
      | Some b_tag \<Rightarrow>
          (case find_parent (lit ''td'') b_tag of
             None \<Rightarrow> None
           | Some parent_td \<Rightarrow>
               (case find_next_sibling (lit ''td'') (snd parent_td) of
                  None \<Rightarrow> None
                | Some next_td \<Rightarrow> Some (get_text next_td))))"

definition get_tender_dates :: "node \<Rightarrow> (pystr \<times> pystr option) list" where
  "get_tender_dates soup =
     [(lit ''published_date'', extract_date soup (lit ''Published Date'')),
      (lit ''sale_start_date'', extract_date soup (lit ''Document Download / Sale Start Date'')),
      (lit ''clarification_start_date'', extract_date soup (lit ''Clarification Start Date'')),
      (lit ''bid_submission_start_date'', extract_date soup (lit ''Bid Submission Start Date'')),
      (lit ''bid_opening_date'', extract_date soup (lit ''Bid Opening Date'')),
      (lit ''sale_end_date'', extract_date soup (lit ''Sale End Date'')),
      (lit ''clarification_end_date'', extract_date soup (lit ''Clarification End Date'')),
      (lit ''bid_submission_end_date'', extract_date soup (lit ''Bid Submission End Date''))]"

text \<open>
  \<open>extract_value\<close>: the label is a pattern of letters and blanks, so \<open>re.search\<close> with
  \<open>re.IGNORECASE\<close> looks for the label itself, whatever the case.
\<close>

definition extract_value :: "node \<Rightarrow> pystr \<Rightarrow> pystr option" where
  "extract_value soup label =
     (case find_first (\<lambda>x. named (lit ''td'') x \<and> has_class (lit ''td_caption'') x \<and>
                            string_passes (\<lambda>t. t \<noteq> [] \<and> py_in (lower label) (lower t)) x)
                      soup of
        None \<Rightarrow> None
      | Some td \<Rightarrow>
          (case find_next_sibling (lit ''td'') (after td) of
             None \<Rightarrow> None
           | Some sibling \<Rightarrow> Some (get_text sibling)))"

text \<open>
  \<open>get_tender_id_organization_chain\<close>: every exception of the two reads (a row with fewer
  than two cells, a cell with no \<open>b\<close>) is caught and gives \<open>(None, None)\<close>.
\<close>

definition bold_text :: "node list \<Rightarrow> pystr option" where
  "bold_text tds =
     (if length tds < 2 then None
      else map_option get_text (find_tag (lit ''b'') (tds ! 1)))"

definition get_tender_id_organization_chain :: "node \<Rightarrow> pystr option \<times> pystr option" where
  "get_tender_id_organization_chain soup =
     (case find_first (\<lambda>x. named (lit ''table'') x \<and> has_class (lit ''tablebg'') x) soup of
        None \<Rightarrow> (None, None)
      | Some table \<Rightarrow>
          (let rows = find_all (lit ''tr'') (here table)
           in if length rows < 3 then (None, None)
              else
                let first_row = rows ! 0;
                    third_row = rows ! 2;
                    tender_id_tds = find_all (lit ''td'') third_row;
                    organisation_chain_tds = find_all (lit ''td'') first_row
                in (case bold_text tender_id_tds of
                      None \<Rightarrow> (None, None)
                    | Some tender_id \<Rightarrow>
                        (case bold_text organisation_chain_tds of
                           None \<Rightarrow> (None, None)
                         | Some tender_organization_chain \<Rightarrow>
                             (Some tender_id, Some tender_organization_chain)))))"

section \<open>The tender filter\<close>

text \<open>
  What \<open>get_tender_value\<close> returns: the dictionary of a kept tender, the dictionary
  \<open>{"tender_id": "SKIP"}\<close>, or \<open>None\<close>.
\<close>

record tender =
  tender_id :: "pystr option"
  tender_value :: "int option"
  tender_organization_chain :: "pystr option"
  tender_type :: "pystr option"
  tender_dates :: "(pystr \<times> pystr option) list"

datatype tender_values = Kept tender | SkipOnly

definition SKIP :: pystr where
  "SKIP = lit ''SKIP''"

definition id_of :: "tender_values \<Rightarrow> pystr option" where
  "id_of tv = (case tv of Kept t \<Rightarrow> tender_id t | SkipOnly \<Rightarrow> Some SKIP)"

text \<open>The text of the cell after the one labelled \<open>Tender Value in\<close> and the rupee sign.\<close>

definition value_label :: pystr where
  "value_label = lit ''Tender Value in '' @ [rupee]"

definition value_cell_text :: "node \<Rightarrow> pystr option" where
  "value_cell_text soup =
     (case find_string (lit ''td'') (\<lambda>t. t \<noteq> [] \<and> py_in value_label t) soup of
        None \<Rightarrow> None
      | Some label_td \<Rightarrow>
          (case find_next_sibling (lit ''td'') (after label_td) of
             None \<Rightarrow> None
           | Some value_td \<Rightarrow> Some (get_text value_td)))"

definition clean :: "pystr \<Rightarrow> pystr" where
  "clean value_text = strip (remove_char rupee (remove_char 44 value_text))"

text \<open>The conversion inside the \<open>try\<close>: \<open>None\<close> for \<open>NA\<close> and the empty text, else \<open>int(float(...))\<close>.\<close>

definition convert :: "pystr \<Rightarrow> pyerr + int option" where
  "convert clean_text =
     (if upper clean_text = lit ''NA'' \<or> clean_text = [] then Inr None
      else (case py_float clean_text of
              Inl e \<Rightarrow> Inl e
            | Inr x \<Rightarrow> (case py_int x of Inl e \<Rightarrow> Inl e | Inr i \<Rightarrow> Inr (Some i))))"

text \<open>
  \<open>get_tender_value\<close>. Only \<open>ValueError\<close> is caught; any other exception of the conversion
  leaves the function.
\<close>

definition get_tender_value :: "parser \<Rightarrow> pystr \<Rightarrow> pyerr + tender_values option" where
  "get_tender_value bs detail_html =
     (let soup = bs detail_html;
          dates = get_tender_dates soup
      in case value_cell_text soup of
           None \<Rightarrow> Inr None
         | Some value_text \<Rightarrow>
             (case convert (clean value_text) of
                Inl e \<Rightarrow> (if e = ValueError then Inr None else Inl e)
              | Inr v \<Rightarrow>
                  if v = None \<or> the v < 3000000 then
                    (case get_tender_id_organization_chain soup of
                       (tid, chain) \<Rightarrow>
                         Inr (Some (Kept \<lparr>tender_id = tid, tender_value = v,
                                          tender_organization_chain = chain,
                                          tender_type = extract_value soup (lit ''Tender Type''),
                                          tender_dates = dates\<rparr>)))
                  else Inr (Some SkipOnly)))"

section \<open>The dedup tracker, the digest and the diagnostics\<close>

text \<open>
  \<open>tender_collection\<close> holds one document \<open>{"tender_id": id}\<close> per insertion;
  \<open>find_one\<close> finds a document when one has that id.
\<close>

definition find_one :: "pystr \<Rightarrow> 'w state \<Rightarrow> bool \<times> 'w state" where
  "find_one tid st =
     (tid \<in> set (tender_collection st),
      st\<lparr>trace := trace st @ [FindOne tid (tid \<in> set (tender_collection st))]\<rparr>)"

definition insert_one :: "pystr \<Rightarrow> 'w state \<Rightarrow> 'w state" where
  "insert_one tid st =
     st\<lparr>tender_collection := tender_collection st @ [tid], trace := trace st @ [InsertOne tid]\<rparr>"

text \<open>\<open>email_body += s\<close>.\<close>

definition emit :: "pystr \<Rightarrow> 'w state \<Rightarrow> 'w state" where
  "emit s st = st\<lparr>email_body := email_body st @ s, trace := trace st @ [Append s]\<rparr>"

text \<open>
  \<open>save_failed_html\<close> writes the page to
  \<open>failed_tender_html/failed_<safe_url>_<time>.txt\<close>; the model keeps the sanitised URL
  and the contents, not the clock's reading. The name has the 22 characters of \<open>failed_\<close>,
  \<open>_\<close>, the ten digits of the clock's reading (as it has from 2001 to 2286) and \<open>.txt\<close>
  besides the sanitised URL, all of them ASCII; \<open>open\<close> raises \<open>OSError\<close> (file name too
  long) when a name is over 255 bytes, and nothing in the scraper catches it. Other
  failures of the file system are not modelled.
\<close>

definition is_alnum :: "nat \<Rightarrow> bool" where
  "is_alnum c \<longleftrightarrow> is_lower c \<or> is_upper c \<or> is_digit c"

definition safe_url :: "pystr \<Rightarrow> pystr" where
  "safe_url tender_url = map (\<lambda>c. if is_alnum c then c else 95) tender_url"

definition file_name_fits :: "pystr \<Rightarrow> bool" where
  "file_name_fits tender_url \<longleftrightarrow> length (safe_url tender_url) + 22 \<le> 255"

definition save_failed_html :: "pystr \<Rightarrow> pystr \<Rightarrow> 'w state \<Rightarrow> pyerr option \<times> 'w state" where
  "save_failed_html html tender_url st =
     (if file_name_fits tender_url
      then (None,
            st\<lparr>failed_tender_html := failed_tender_html st @ [(safe_url tender_url, html)],
               trace := trace st @ [WriteFile (safe_url tender_url) html]\<rparr>)
      else (Some OSError, st))"

definition send_email :: "'w state \<Rightarrow> 'w state" where
  "send_email st = st\<lparr>trace := trace st @ [SendEmail (email_body st)]\<rparr>"

section \<open>The orchestrator\<close>

text \<open>The pieces of the digest, as the f-strings of \<open>__main__\<close> build them.\<close>

definition failure_line :: "pystr \<Rightarrow> pystr" where
  "failure_line tender_url =
     lit ''<p>Failed to fetch tender details for <a href='' @ [39] @ tender_url @ [39]
       @ lit ''>'' @ tender_url @ lit ''</a></p>''"

definition fragment_head :: "pystr \<Rightarrow> tender \<Rightarrow> pystr" where
  "fragment_head tender_url t =
     lit ''<p><a href='' @ [39] @ tender_url @ [39] @ lit ''>Tender URL</a><br>''
       @ lit ''Tender ID: '' @ fmt_str (tender_id t) @ lit ''<br>''
       @ lit ''Tender Value in '' @ [rupee] @ lit '': '' @ fmt_int (tender_value t) @ lit ''<br>''
       @ lit ''Tender Type: '' @ fmt_str (tender_type t) @ lit ''<br>''
       @ lit ''Organization Chain: '' @ fmt_str (tender_organization_chain t) @ lit ''<br>''
       @ lit ''<b>Critical Dates:</b><br>''"

fun emit_dates :: "(pystr \<times> pystr option) list \<Rightarrow> 'w state \<Rightarrow> 'w state" where
  "emit_dates [] st = st"
| "emit_dates ((date_label, date_value) # rest) st =
     (case date_value of
        None \<Rightarrow> emit_dates rest st
      | Some v \<Rightarrow>
          if v = [] then emit_dates rest st
          else emit_dates rest
                 (emit (title (underscores_to_spaces date_label) @ lit '': '' @ v @ lit ''<br>'') st))"

text \<open>
  One turn of the loop over \<open>tender_links\<close> (lines 331 to 375). The result is the
  exception that left the loop, if any, the counter and the state.
\<close>

definition process_tender ::
  "'w net \<Rightarrow> parser \<Rightarrow> pystr \<Rightarrow> nat \<Rightarrow> 'w state \<Rightarrow> pyerr option \<times> nat \<times> 'w state" where
  "process_tender net bs tender_url count st =
     (case fetch_page net tender_url st of
        (page, st1) \<Rightarrow>
          (case page of
             None \<Rightarrow> (None, count, st1)
           | Some detail_html \<Rightarrow>
               if detail_html = [] then (None, count, st1)
               else
                 (case get_tender_value bs detail_html of
                    Inl e \<Rightarrow> (Some e, count, st1)
                  | Inr None \<Rightarrow>
                      (case save_failed_html detail_html tender_url st1 of
                         (Some e, st2) \<Rightarrow> (Some e, count, st2)
                       | (None, st2) \<Rightarrow> (None, count, emit (failure_line tender_url) st2))
                  | Inr (Some SkipOnly) \<Rightarrow> (None, count, st1)
                  | Inr (Some (Kept t)) \<Rightarrow>
                      if tender_id t = Some SKIP then (None, count, st1)
                      else
                        (case tender_id t of
                           None \<Rightarrow> (None, count, st1)
                         | Some tid \<Rightarrow>
                             if tid = [] then (None, count, st1)
                             else
                               (case find_one tid st1 of
                                  (found, st2) \<Rightarrow>
                                    if found then (None, count, st2)
                                    else
                                      (None, count + 1,
                                       emit (lit ''</p><hr>'')
                                         (emit_dates (tender_dates t)
                                            (emit (fragment_head tender_url t)
                                               (insert_one tid st2)))))))))"

fun tender_loop ::
  "'w net \<Rightarrow> parser \<Rightarrow> pystr list \<Rightarrow> nat \<Rightarrow> 'w state \<Rightarrow> pyerr option \<times> nat \<times> 'w state" where
  "tender_loop net bs [] count st = (None, count, st)"
| "tender_loop net bs (tender_url # rest) count st =
     (case process_tender net bs tender_url count st of
        (Some e, count', st') \<Rightarrow> (Some e, count', st')
      | (None, count', st') \<Rightarrow> tender_loop net bs rest count' st')"

text \<open>One turn of the loop over \<open>departments_to_search\<close> (lines 314 to 376).\<close>

definition process_department ::
  "'w net \<Rightarrow> parser \<Rightarrow> node \<Rightarrow> pystr \<Rightarrow> 'w state \<Rightarrow> pyerr option \<times> 'w state" where
  "process_department net bs department_table dept st =
     (let dept_link = extract_department_link department_table dept;
          st1 = emit (lit ''<h2>Department: '' @ dept @ lit ''</h2>'') st
      in case dept_link of
           None \<Rightarrow> (None, emit (lit ''<p>Not found or no link available.</p>'') st1)
         | Some link \<Rightarrow>
             if link = [] then (None, emit (lit ''<p>Not found or no link available.</p>'') st1)
             else
               (case fetch_page net link st1 of
                  (page, st2) \<Rightarrow>
                    if page = None \<or> page = Some []
                    then (None, emit (lit ''<p>Failed to fetch organisation page.</p>'') st2)
                    else
                      (case get_tender_links_from_org_page bs (the page) of
                         Inl e \<Rightarrow> (Some e, st2)
                       | Inr tender_links \<Rightarrow>
                           (case tender_loop net bs tender_links 0
                                   (emit (lit ''<p>Found '' @ str_nat (length tender_links)
                                            @ lit '' total tenders.</p>'') st2) of
                              (Some e, count, st3) \<Rightarrow> (Some e, st3)
                            | (None, count, st3) \<Rightarrow>
                                (None, emit (lit ''Fount '' @ str_nat count
                                               @ lit '' new tenders for '' @ dept @ lit ''<br>'')
                                         st3)))))"

fun department_loop ::
  "'w net \<Rightarrow> parser \<Rightarrow> node \<Rightarrow> pystr list \<Rightarrow> 'w state \<Rightarrow> pyerr option \<times> 'w state" where
  "department_loop net bs department_table [] st = (None, st)"
| "department_loop net bs department_table (dept # rest) st =
     (case process_department net bs department_table dept st of
        (Some e, st') \<Rightarrow> (Some e, st')
      | (None, st') \<Rightarrow> department_loop net bs department_table rest st')"

text \<open>\<open>departments_to_search\<close>, from the environment variable \<open>DEPARTMENTS\<close>.\<close>

definition departments_to_search :: "pystr \<Rightarrow> pystr list" where
  "departments_to_search DEPARTMENTS = map strip (split_on 44 DEPARTMENTS)"

text \<open>
  \<open>__main__\<close>, from the portal's state and the stored tender ids: how the run ended and
  the state it left.
\<close>

datatype outcome = Finished | Exit nat | Raised pyerr

definition start :: "'w \<Rightarrow> pystr list \<Rightarrow> 'w state" where
  "start w seen =
     \<lparr>world = w, tender_collection = seen, email_body = lit ''<html><body>'',
      failed_tender_html = [], trace = []\<rparr>"

definition main :: "'w net \<Rightarrow> parser \<Rightarrow> pystr \<Rightarrow> 'w \<Rightarrow> pystr list \<Rightarrow> outcome \<times> 'w state" where
  "main net bs DEPARTMENTS w seen =
     (case fetch_page net MAIN_URL (start w seen) of
        (page, st1) \<Rightarrow>
          if page = None \<or> page = Some [] then (Exit 1, st1)
          else
            (case get_department_table bs (the page) of
               None \<Rightarrow> (Exit 1, st1)
             | Some department_table \<Rightarrow>
                 (case department_loop net bs department_table
                         (departments_to_search DEPARTMENTS) st1 of
                    (Some e, st2) \<Rightarrow> (Raised e, st2)
                  | (None, st2) \<Rightarrow>
                      (Finished, send_email (emit (lit ''</body></html>'') st2)))))"

section \<open>A small portal\<close>

text \<open>
  One department, \<open>Public Works Department\<close>, whose organisation page lists two tenders:
  \<open>T1\<close> of value 2,500,000 and \<open>T2\<close> of value 5,000,000. The pages are given as parsed
  trees, and the parser of the scenario maps the four page texts to them.
\<close>

definition elem :: "string \<Rightarrow> node list \<Rightarrow> node" where
  "elem nm cs = Tag (lit nm) [] [] cs"

definition table_of :: "string \<Rightarrow> node list \<Rightarrow> node" where
  "table_of c rows = Tag (lit ''table'') [lit c] [] rows"

definition link_to :: "string \<Rightarrow> string \<Rightarrow> node" where
  "link_to href label = Tag (lit ''a'') [] [(lit ''href'', lit href)] [Text (lit label)]"

definition cell :: "string \<Rightarrow> node" where
  "cell s = elem ''td'' [Text (lit s)]"

definition directory_table :: node where
  "directory_table =
     table_of ''list_table''
       [elem ''tr'' [elem ''th'' [Text (lit ''Organisation Name'')]],
        elem ''tr'' [cell ''1'', cell '' Public Works Department '',
                    elem ''td'' [link_to '' /org/pwd '' ''12'']]]"

definition directory_soup :: node where
  "directory_soup =
     elem ''[document]''
       [table_of ''list_table'' [], table_of ''list_table'' [], directory_table]"

definition org_soup :: node where
  "org_soup =
     elem ''[document]''
       [table_of ''list_table''
          [elem ''tr'' [cell ''S.No'', cell ''Title''],
           elem ''tr'' [cell ''1'', cell ''a'', cell ''b'', cell ''c'',
                       elem ''td'' [link_to ''/tender/1'' ''Road'']],
           elem ''tr'' [cell ''2'', cell ''a'', cell ''b'', cell ''c'',
                       elem ''td'' [link_to ''/tender/2'' ''Bridge'']]]]"

definition caption :: "pystr \<Rightarrow> node" where
  "caption s = Tag (lit ''td'') [lit ''td_caption''] [] [elem ''b'' [Text s]]"

definition detail_soup :: "string \<Rightarrow> pystr \<Rightarrow> node" where
  "detail_soup tid amount =
     elem ''[document]''
       [table_of ''tablebg''
          [elem ''tr'' [cell ''Organisation Chain'', elem ''td'' [elem ''b'' [Text (lit ''PWD'')]]],
           elem ''tr'' [cell ''Tender Reference Number'', elem ''td'' [elem ''b'' [Text (lit ''R/1'')]]],
           elem ''tr'' [cell ''Tender ID'', elem ''td'' [elem ''b'' [Text (lit tid)]]]],
        table_of ''list''
          [elem ''tr'' [caption value_label, elem ''td'' [Text amount]],
           elem ''tr'' [caption (lit ''Bid Opening Date''), cell ''11-Jan-2025 10:00 AM'']]]"

definition org_url :: pystr where
  "org_url = BASE_URL @ lit ''/org/pwd''"

definition tender1_url :: pystr where
  "tender1_url = BASE_URL @ lit ''/tender/1''"

definition tender2_url :: pystr where
  "tender2_url = BASE_URL @ lit ''/tender/2''"

definition portal :: "unit net" where
  "portal w url =
     (if url = MAIN_URL then (Response 200 (lit ''directory''), w)
      else if url = org_url then (Response 200 (lit ''organisation''), w)
      else if url = tender1_url then (Response 200 (lit ''tender 1''), w)
      else if url = tender2_url then (Response 200 (lit ''tender 2''), w)
      else (Response 404 (lit ''not found''), w))"

text \<open>
  The parser of the scenario, with the text of the value cell of \<open>T1\<close> left open, and with the
  organisation page left out.
\<close>

definition portal_with :: "pystr \<Rightarrow> parser" where
  "portal_with amount page =
     (if page = lit ''directory'' then directory_soup
      else if page = lit ''organisation'' then org_soup
      else if page = lit ''tender 1'' then detail_soup ''T1'' amount
      else if page = lit ''tender 2'' then detail_soup ''T2'' (lit ''50,00,000'')
      else elem ''[document]'' [])"

definition portal_bs :: parser where
  "portal_bs = portal_with (lit ''25,00,000'')"

definition plain_bs :: parser where
  "plain_bs page = (if page = lit ''directory'' then directory_soup else elem ''[document]'' [])"

text \<open>
  Two parsers for pages that consist of the value text only: one gives the detail page of
  \<open>T1\<close> with that text in the value cell, the other a page with the value row and no
  summary table, so with no tender id.
\<close>

definition value_page :: parser where
  "value_page amount = detail_soup ''T1'' amount"

definition bare_page :: parser where
  "bare_page amount =
     elem ''[document]'' [table_of ''list'' [elem ''tr'' [caption value_label, elem ''td'' [Text amount]]]]"

text \<open>The detail page of a tender whose id reads \<open>SKIP\<close>.\<close>

definition skip_page :: parser where
  "skip_page amount = detail_soup ''SKIP'' amount"

text \<open>The value text of \<open>10 ^ 309\<close>: the digit 1 and 309 zeros.\<close>

definition huge_amount :: pystr where
  "huge_amount = 49 # replicate 309 48"

text \<open>A portal that answers every request with the same page, and one that is down.\<close>

definition serving :: "pystr \<Rightarrow> unit net" where
  "serving page w url = (Response 200 page, w)"

definition down :: "unit net" where
  "down w url = (RequestException, w)"

definition detail_dates :: "(pystr \<times> pystr option) list" where
  "detail_dates =
     [(lit ''published_date'', None),
      (lit ''sale_start_date'', None),
      (lit ''clarification_start_date'', None),
      (lit ''bid_submission_start_date'', None),
      (lit ''bid_opening_date'', Some (lit ''11-Jan-2025 10:00 AM'')),
      (lit ''sale_end_date'', None),
      (lit ''clarification_end_date'', None),
      (lit ''bid_submission_end_date'', None)]"

text \<open>The record read from the detail page of \<open>T1\<close> when its value cell gives \<open>v\<close>.\<close>

definition detail_record :: "int option \<Rightarrow> tender" where
  "detail_record v =
     \<lparr>tender_id = Some (lit ''T1''), tender_value = v,
      tender_organization_chain = Some (lit ''PWD''), tender_type = None,
      tender_dates = detail_dates\<rparr>"

text \<open>The ids, the digest and the trace that the run on this portal is expected to give.\<close>

definition T1 :: pystr where
  "T1 = lit ''T1''"

definition PWD :: pystr where
  "PWD = lit ''Public Works Department''"

definition found_total :: pystr where
  "found_total = lit ''<p>Found 2 total tenders.</p>''"

definition fount_new :: pystr where
  "fount_new = lit ''Fount 1 new tenders for Public Works Department<br>''"

definition found_new :: pystr where
  "found_new = lit ''Found 1 new tenders for Public Works Department''"

definition t1_head :: pystr where
  "t1_head =
     lit ''<p><a href='' @ [39] @ tender1_url @ [39] @ lit ''>Tender URL</a><br>''
       @ lit ''Tender ID: T1<br>''
       @ lit ''Tender Value in '' @ [rupee] @ lit '': 2500000<br>''
       @ lit ''Tender Type: None<br>''
       @ lit ''Organization Chain: PWD<br>''
       @ lit ''<b>Critical Dates:</b><br>''"

definition t1_date :: pystr where
  "t1_date = lit ''Bid Opening Date: 11-Jan-2025 10:00 AM<br>''"

definition digest :: pystr where
  "digest =
     lit ''<html><body>'' @ lit ''<h2>Department: Public Works Department</h2>'' @ found_total
       @ t1_head @ t1_date @ lit ''</p><hr>'' @ fount_new @ lit ''</body></html>''"

definition run_trace :: "event list" where
  "run_trace =
     [Get MAIN_URL, Append (lit ''<h2>Department: Public Works Department</h2>''),
      Get org_url, Append found_total,
      Get tender1_url, FindOne T1 False, InsertOne T1, Append t1_head, Append t1_date,
      Append (lit ''</p><hr>''),
      Get tender2_url, Append fount_new, Append (lit ''</body></html>''), SendEmail digest]"

section \<open>Notions for the statements\<close>

text \<open>The tender ids a trace inserts, in order.\<close>

fun inserted :: "event list \<Rightarrow> pystr list" where
  "inserted [] = []"
| "inserted (InsertOne tid # tr) = tid # inserted tr"
| "inserted (e # tr) = inserted tr"

text \<open>A trace with no insertion.\<close>

definition quiet :: "event list \<Rightarrow> bool" where
  "quiet d = list_all (\<lambda>e. case e of InsertOne tid \<Rightarrow> False | _ \<Rightarrow> True) d"

text \<open>The lines \<open>emit_dates\<close> appends, and the whole fragment of a reported tender.\<close>

fun date_lines :: "(pystr \<times> pystr option) list \<Rightarrow> pystr list" where
  "date_lines [] = []"
| "date_lines ((date_label, date_value) # rest) =
     (case date_value of
        None \<Rightarrow> date_lines rest
      | Some v \<Rightarrow>
          if v = [] then date_lines rest
          else (title (underscores_to_spaces date_label) @ lit '': '' @ v @ lit ''<br>'')
                 # date_lines rest)"

definition fragment :: "pystr \<Rightarrow> tender \<Rightarrow> pystr" where
  "fragment tender_url t =
     fragment_head tender_url t @ concat (date_lines (tender_dates t)) @ lit ''</p><hr>''"

text \<open>
  \<open>reported bs tid post\<close>: the trace \<open>post\<close> starts with the head of the fragment of a
  tender that \<open>get_tender_value\<close> kept on some page, with the id \<open>tid\<close>, not empty, and a
  value that is absent or under the threshold.
\<close>

definition reported :: "parser \<Rightarrow> pystr \<Rightarrow> event list \<Rightarrow> bool" where
  "reported bs tid post \<longleftrightarrow>
     (\<exists>url html t post'. post = Append (fragment_head url t) # post'
        \<and> get_tender_value bs html = Inr (Some (Kept t))
        \<and> tender_id t = Some tid \<and> tid \<noteq> []
        \<and> (tender_value t = None \<or> the (tender_value t) < 3000000))"

text \<open>
  A trace is guarded when every insertion comes right after the check that did not find
  the id and right before the report of a tender with that id.
\<close>

definition guarded :: "parser \<Rightarrow> event list \<Rightarrow> bool" where
  "guarded bs tr \<longleftrightarrow>
     (\<forall>pre tid post. tr = pre @ InsertOne tid # post \<longrightarrow>
        (\<exists>pre'. pre = pre' @ [FindOne tid False]) \<and> reported bs tid post)"

text \<open>
  \<open>advance bs st st'\<close>: \<open>st'\<close> comes from \<open>st\<close> by a guarded piece of trace whose
  insertions are new, distinct, and exactly what the collection gained.
\<close>

definition advance :: "parser \<Rightarrow> 'w state \<Rightarrow> 'w state \<Rightarrow> bool" where
  "advance bs st st' \<longleftrightarrow>
     (\<exists>d. trace st' = trace st @ d
        \<and> tender_collection st' = tender_collection st @ inserted d
        \<and> distinct (inserted d)
        \<and> set (inserted d) \<inter> set (tender_collection st) = {}
        \<and> guarded bs d)"

section \<open>Session recovery\<close>

text \<open>
  C2, as amended. When the first response has no error status and its body holds the
  expiry marker, \<open>fetch_page\<close> sends one restart request and, unless that request
  raises, one more GET of the page, and nothing after it. The fetch fails when the
  restart or the second GET raises or the second status is an error; otherwise the second
  body is returned as it is, without a look at whether it holds the marker again.
\<close>

theorem fetch_page_session_expiry:
  assumes "net (world st) url = (Response code body, w1)"
    and "\<not> raise_for_status code"
    and "py_in timed_out body"
    and "net w1 restart_url = (r2, w2)"
    and "net w2 url = (r3, w3)"
  shows "fetch_page net url st =
     (if r2 = RequestException
      then (None, st\<lparr>world := w2, trace := trace st @ [Get url, Get restart_url]\<rparr>)
      else (case r3 of
              RequestException \<Rightarrow> None
            | Response code' body' \<Rightarrow> if raise_for_status code' then None else Some body',
            st\<lparr>world := w3, trace := trace st @ [Get url, Get restart_url, Get url]\<rparr>))"
  using assms
  by (cases r2; cases r3) (simp_all add: fetch_page_def session_get_def)

theorem fetch_page_session_expiry_witness:
  "fetch_page (\<lambda>w url. (Response 200 timed_out, w)) MAIN_URL (start () []) =
     (Some timed_out, (start () [])\<lparr>trace := [Get MAIN_URL, Get restart_url, Get MAIN_URL]\<rparr>)"
  using fetch_page_session_expiry [of "\<lambda>w url. (Response 200 timed_out, w)" "start () []" MAIN_URL
      200 timed_out "()" "Response 200 timed_out" "()" "Response 200 timed_out" "()"]
  by (simp add: raise_for_status_def py_in_def start_def)

text \<open>
  C2 as stated fails. A portal whose every page holds the marker gets the expired page
  back from \<open>fetch_page\<close>, not a failure; an error status on the first response, or a
  restart request that raises, ends the fetch before any retry.
\<close>

theorem second_expiry_counterexample:
  "fst (fetch_page (\<lambda>w url. (Response 200 timed_out, w)) MAIN_URL (start () [])) = Some timed_out
   \<and> py_in timed_out timed_out
   \<and> trace (snd (fetch_page (\<lambda>w url. (Response 500 timed_out, w)) MAIN_URL (start () [])))
       = [Get MAIN_URL]
   \<and> trace (snd (fetch_page (\<lambda>w url. if url = restart_url then (RequestException, w)
                                        else (Response 200 timed_out, w)) MAIN_URL (start () [])))
       = [Get MAIN_URL, Get restart_url]"
  by (simp add: fetch_page_def session_get_def raise_for_status_def py_in_def start_def
      MAIN_URL_def restart_url_def lit_def)

section \<open>Department resolution\<close>






section \<open>The threshold\<close>

text \<open>
  C4. When the value cell is found and its cleaned text converts to \<open>v\<close>, a number or
  \<open>None\<close>, \<open>get_tender_value\<close> returns the skip dictionary exactly when \<open>v\<close> is a number
  from 3000000 on, and a kept record carrying \<open>v\<close> exactly when \<open>v\<close> is \<open>None\<close> or a
  number under 3000000.
\<close>

theorem threshold_classification:
  assumes "value_cell_text (bs html) = Some value_text"
    and "convert (clean value_text) = Inr v"
  shows "(get_tender_value bs html = Inr (Some SkipOnly) \<longleftrightarrow> (\<exists>n. v = Some n \<and> 3000000 \<le> n))
    \<and> ((\<exists>t. get_tender_value bs html = Inr (Some (Kept t)) \<and> tender_value t = v)
          \<longleftrightarrow> (v = None \<or> (\<exists>n. v = Some n \<and> n < 3000000)))"
  using assms
  by (cases v) (auto simp add: get_tender_value_def Let_def split: prod.splits)
section \<open>Insertions into the seen log\<close>

lemma inserted_append: "inserted (a @ b) = inserted a @ inserted b"
  by (induction a rule: inserted.induct) simp_all

lemma quiet_append: "quiet (a @ b) \<longleftrightarrow> quiet a \<and> quiet b"
  by (simp add: quiet_def)

lemma quiet_inserted: "quiet d \<Longrightarrow> inserted d = []"
  by (induction d rule: inserted.induct) (simp_all add: quiet_def)

lemma quiet_no_insert: "quiet d \<Longrightarrow> InsertOne tid \<notin> set d"
  by (auto simp add: quiet_def list_all_iff)

lemma quiet_guarded: "quiet d \<Longrightarrow> guarded bs d"
  unfolding guarded_def using quiet_no_insert by fastforce

lemma reported_append: "reported bs tid us \<Longrightarrow> reported bs tid (us @ b)"
  unfolding reported_def by fastforce

lemma guarded_append:
  assumes "guarded bs a" and "guarded bs b"
  shows "guarded bs (a @ b)"
  unfolding guarded_def
proof (intro allI impI)
  fix pre tid post
  assume eq: "a @ b = pre @ InsertOne tid # post"
  then obtain us where "(a = pre @ us \<and> us @ b = InsertOne tid # post)
      \<or> (a @ us = pre \<and> b = us @ InsertOne tid # post)"
    by (auto simp add: append_eq_append_conv2)
  then show "(\<exists>pre'. pre = pre' @ [FindOne tid False]) \<and> reported bs tid post"
  proof
    assume h: "a = pre @ us \<and> us @ b = InsertOne tid # post"
    show ?thesis
    proof (cases us)
      case Nil
      with h have "b = [] @ InsertOne tid # post" by simp
      with assms(2) show ?thesis unfolding guarded_def by blast
    next
      case (Cons u us')
      with h have a: "a = pre @ InsertOne tid # us'" and p: "post = us' @ b" by simp_all
      from assms(1) a have "(\<exists>pre'. pre = pre' @ [FindOne tid False]) \<and> reported bs tid us'"
        unfolding guarded_def by blast
      with p show ?thesis by (simp add: reported_append)
    qed
  next
    assume h: "a @ us = pre \<and> b = us @ InsertOne tid # post"
    with assms(2) have "(\<exists>pre'. us = pre' @ [FindOne tid False]) \<and> reported bs tid post"
      unfolding guarded_def by blast
    with h show ?thesis by auto
  qed
qed

lemma advance_refl: "advance bs st st"
  unfolding advance_def by (rule exI [of _ "[]"]) (simp add: guarded_def)

lemma advance_trans:
  assumes "advance bs s1 s2" and "advance bs s2 s3"
  shows "advance bs s1 s3"
proof -
  from assms(1) obtain d1 where d1: "trace s2 = trace s1 @ d1"
    "tender_collection s2 = tender_collection s1 @ inserted d1"
    "distinct (inserted d1)" "set (inserted d1) \<inter> set (tender_collection s1) = {}" "guarded bs d1"
    unfolding advance_def by blast
  from assms(2) obtain d2 where d2: "trace s3 = trace s2 @ d2"
    "tender_collection s3 = tender_collection s2 @ inserted d2"
    "distinct (inserted d2)" "set (inserted d2) \<inter> set (tender_collection s2) = {}" "guarded bs d2"
    unfolding advance_def by blast
  show ?thesis
    unfolding advance_def
  proof (intro exI [of _ "d1 @ d2"] conjI)
    show "trace s3 = trace s1 @ d1 @ d2" using d1 d2 by simp
    show "tender_collection s3 = tender_collection s1 @ inserted (d1 @ d2)"
      using d1 d2 by (simp add: inserted_append)
    show "distinct (inserted (d1 @ d2))"
      using d1 d2 by (auto simp add: inserted_append)
    show "set (inserted (d1 @ d2)) \<inter> set (tender_collection s1) = {}"
      using d1 d2 by (auto simp add: inserted_append)
    show "guarded bs (d1 @ d2)" using d1 d2 by (simp add: guarded_append)
  qed
qed

lemma advance_quiet:
  assumes "trace st' = trace st @ d" and "quiet d"
    and "tender_collection st' = tender_collection st"
  shows "advance bs st st'"
  unfolding advance_def using assms
  by (intro exI [of _ d]) (simp add: quiet_inserted quiet_guarded)

lemma fetch_page_quiet:
  assumes "fetch_page net url st = (page, st1)"
  shows "\<exists>d. trace st1 = trace st @ d \<and> quiet d"
    and "tender_collection st1 = tender_collection st"
    and "email_body st1 = email_body st"
    and "failed_tender_html st1 = failed_tender_html st"
  using assms
  by (auto simp add: fetch_page_def session_get_def quiet_def
      split: prod.splits reply.splits if_splits)

lemma fetch_page_advance: "fetch_page net url st = (page, st1) \<Longrightarrow> advance bs st st1"
  using fetch_page_quiet(1,2) advance_quiet by blast

lemma emit_advance: "advance bs st (emit s st)"
  by (rule advance_quiet [of _ _ "[Append s]"]) (simp_all add: emit_def quiet_def)

lemma emit_dates_trace:
  "trace (emit_dates ds st) = trace st @ map Append (date_lines ds)
   \<and> tender_collection (emit_dates ds st) = tender_collection st
   \<and> email_body (emit_dates ds st) = email_body st @ concat (date_lines ds)
   \<and> failed_tender_html (emit_dates ds st) = failed_tender_html st"
  by (induction ds st rule: emit_dates.induct) (auto simp add: emit_def split: option.splits)

lemma quiet_map_Append: "quiet (map Append xs)"
  by (simp add: quiet_def list_all_iff)

lemma kept_passed:
  "get_tender_value bs html = Inr (Some (Kept t)) \<Longrightarrow>
   tender_value t = None \<or> the (tender_value t) < 3000000"
  by (auto simp add: get_tender_value_def Let_def split: option.splits sum.splits if_splits prod.splits)

lemma block_guarded:
  assumes "get_tender_value bs html = Inr (Some (Kept t))"
    and "tender_id t = Some tid" and "tid \<noteq> []" and "quiet rest"
  shows "guarded bs ([FindOne tid False, InsertOne tid, Append (fragment_head url t)] @ rest)"
  unfolding guarded_def
proof (intro allI impI)
  fix pre tid' post
  assume eq: "[FindOne tid False, InsertOne tid, Append (fragment_head url t)] @ rest
      = pre @ InsertOne tid' # post"
  show "(\<exists>pre'. pre = pre' @ [FindOne tid' False]) \<and> reported bs tid' post"
  proof (cases pre)
    case Nil
    with eq show ?thesis by simp
  next
    case (Cons x pre1)
    show ?thesis
    proof (cases pre1)
      case Nil
      with Cons eq have "x = FindOne tid False" "tid' = tid"
        "post = Append (fragment_head url t) # rest" by auto
      moreover have "reported bs tid (Append (fragment_head url t) # rest)"
        unfolding reported_def using assms kept_passed [OF assms(1)] by blast
      ultimately show ?thesis using Cons Nil by simp
    next
      case (Cons y pre2)
      with \<open>pre = x # pre1\<close> eq have "Append (fragment_head url t) # rest = pre2 @ InsertOne tid' # post"
        by simp
      then have "InsertOne tid' \<in> set (Append (fragment_head url t) # rest)"
        by (metis in_set_conv_decomp)
      with assms(4) show ?thesis using quiet_no_insert by fastforce
    qed
  qed
qed

lemma report_advance:
  assumes "get_tender_value bs html = Inr (Some (Kept t))"
    and "tender_id t = Some tid" and "tid \<noteq> []"
    and "find_one tid st1 = (False, st2)"
  shows "advance bs st1
     (emit (lit ''</p><hr>'') (emit_dates (tender_dates t)
        (emit (fragment_head url t) (insert_one tid st2))))"
proof -
  let ?rest = "map Append (date_lines (tender_dates t)) @ [Append (lit ''</p><hr>'')]"
  let ?d = "[FindOne tid False, InsertOne tid, Append (fragment_head url t)] @ ?rest"
  let ?st' = "emit (lit ''</p><hr>'') (emit_dates (tender_dates t)
        (emit (fragment_head url t) (insert_one tid st2)))"
  from assms(4) have notin: "tid \<notin> set (tender_collection st1)"
    and st2: "st2 = st1\<lparr>trace := trace st1 @ [FindOne tid False]\<rparr>"
    by (auto simp add: find_one_def)
  have q: "quiet ?rest" by (simp add: quiet_def list_all_iff)
  have tr: "trace ?st' = trace st1 @ ?d"
    by (simp add: emit_def emit_dates_trace insert_one_def st2)
  have col: "tender_collection ?st' = tender_collection st1 @ inserted ?d"
    by (simp add: emit_def emit_dates_trace insert_one_def st2 inserted_append quiet_inserted [OF quiet_map_Append])
  have ins: "inserted ?d = [tid]"
    by (simp add: inserted_append quiet_inserted [OF quiet_map_Append])
  show ?thesis
    unfolding advance_def
    apply (rule exI [of _ ?d])
    using tr col ins notin block_guarded [OF assms(1-3) q, of url]
    by simp
qed

lemma process_tender_advance:
  assumes "process_tender net bs url c st = (e, c', st')"
  shows "advance bs st st'"
proof -
  obtain page st1 where f: "fetch_page net url st = (page, st1)"
    by (cases "fetch_page net url st")
  have a1: "advance bs st st1" using f by (rule fetch_page_advance)
  have "advance bs st1 st'"
  proof (cases page)
    case None
    with assms f show ?thesis by (simp add: process_tender_def advance_refl)
  next
    case (Some html)
    show ?thesis
    proof (cases "html = []")
      case True
      with Some assms f show ?thesis by (simp add: process_tender_def advance_refl)
    next
      case False
      show ?thesis
      proof (cases "get_tender_value bs html")
        case (Inl err)
        with False Some assms f show ?thesis by (simp add: process_tender_def advance_refl)
      next
        case (Inr r)
        show ?thesis
        proof (cases r)
          case None
          show ?thesis
          proof (cases "file_name_fits url")
            case True
            have "advance bs st1 (emit (failure_line url) (snd (save_failed_html html url st1)))"
              using True
              by (intro advance_quiet [of _ _ "[WriteFile (safe_url url) html, Append (failure_line url)]"])
                (simp_all add: emit_def save_failed_html_def quiet_def)
            with True None Inr False Some assms f show ?thesis
              by (simp add: process_tender_def save_failed_html_def)
          next
            case nofit: False
            with None Inr False Some assms f show ?thesis
              by (simp add: process_tender_def save_failed_html_def advance_refl)
          qed
        next
          case (Some tv)
          note tv = this
          show ?thesis
          proof (cases tv)
            case SkipOnly
            with tv Inr False \<open>page = Some html\<close> assms f show ?thesis
              by (simp add: process_tender_def advance_refl)
          next
            case (Kept t)
            show ?thesis
            proof (cases "tender_id t = Some SKIP \<or> tender_id t = None \<or> tender_id t = Some []")
              case True
              with Kept tv Inr False \<open>page = Some html\<close> assms f show ?thesis
                by (auto simp add: process_tender_def advance_refl SKIP_def lit_def)
            next
              case nt: False
              then obtain tid where tid: "tender_id t = Some tid" "tid \<noteq> []" "tid \<noteq> SKIP"
                by (cases "tender_id t") auto
              obtain found st2 where fo: "find_one tid st1 = (found, st2)"
                by (cases "find_one tid st1")
              show ?thesis
              proof (cases found)
                case True
                have "advance bs st1 st2"
                  using fo True by (intro advance_quiet [of _ _ "[FindOne tid True]"])
                    (auto simp add: find_one_def quiet_def)
                with True fo tid Kept tv Inr False \<open>page = Some html\<close> assms f show ?thesis
                  by (simp add: process_tender_def)
              next
                case nf: False
                have g: "get_tender_value bs html = Inr (Some (Kept t))"
                  using Inr tv Kept by simp
                have "advance bs st1 (emit (lit ''</p><hr>'') (emit_dates (tender_dates t)
                    (emit (fragment_head url t) (insert_one tid st2))))"
                  using report_advance [OF g tid(1,2)] fo nf by simp
                with nf fo tid Kept tv Inr False \<open>page = Some html\<close> assms f show ?thesis
                  by (simp add: process_tender_def)
              qed
            qed
          qed
        qed
      qed
    qed
  qed
  with a1 show ?thesis by (rule advance_trans)
qed

lemma tender_loop_advance:
  "tender_loop net bs urls c st = (e, c', st') \<Longrightarrow> advance bs st st'"
proof (induction urls arbitrary: c st)
  case Nil
  then show ?case by (simp add: advance_refl)
next
  case (Cons u urls)
  obtain e1 c1 s1 where p: "process_tender net bs u c st = (e1, c1, s1)"
    by (cases "process_tender net bs u c st")
  have a: "advance bs st s1" using p by (rule process_tender_advance)
  show ?case
  proof (cases e1)
    case None
    with Cons.prems p have "tender_loop net bs urls c1 s1 = (e, c', st')" by simp
    then have "advance bs s1 st'" by (rule Cons.IH)
    with a show ?thesis by (rule advance_trans)
  next
    case (Some err)
    with Cons.prems p a show ?thesis by simp
  qed
qed

lemma process_department_advance:
  assumes "process_department net bs table dept st = (e, st')"
  shows "advance bs st st'"
proof -
  let ?st1 = "emit (lit ''<h2>Department: '' @ dept @ lit ''</h2>'') st"
  have a1: "advance bs st ?st1" by (rule emit_advance)
  have "advance bs ?st1 st'"
  proof (cases "extract_department_link table dept")
    case None
    with assms show ?thesis by (auto simp add: process_department_def Let_def emit_advance)
  next
    case (Some link)
    show ?thesis
    proof (cases "link = []")
      case True
      with Some assms show ?thesis by (auto simp add: process_department_def Let_def emit_advance)
    next
      case False
      obtain page st2 where f: "fetch_page net link ?st1 = (page, st2)"
        by (cases "fetch_page net link ?st1")
      have a2: "advance bs ?st1 st2" using f by (rule fetch_page_advance)
      show ?thesis
      proof (cases "page = None \<or> page = Some []")
        case True
        with False Some assms f have "st' = emit (lit ''<p>Failed to fetch organisation page.</p>'') st2"
          by (auto simp add: process_department_def Let_def)
        with a2 show ?thesis by (simp add: advance_trans [OF a2 emit_advance])
      next
        case np: False
        show ?thesis
        proof (cases "get_tender_links_from_org_page bs (the page)")
          case (Inl err)
          with np False Some assms f have "st' = st2"
            by (auto simp add: process_department_def Let_def)
          with a2 show ?thesis by simp
        next
          case (Inr links)
          let ?st3 = "emit (lit ''<p>Found '' @ str_nat (length links) @ lit '' total tenders.</p>'') st2"
          obtain e4 c4 st4 where l: "tender_loop net bs links 0 ?st3 = (e4, c4, st4)"
            by (cases "tender_loop net bs links 0 ?st3")
          have a3: "advance bs st2 ?st3" by (rule emit_advance)
          have a4: "advance bs ?st3 st4" using l by (rule tender_loop_advance)
          have a5: "advance bs st4 st'"
          proof (cases e4)
            case None
            with Inr np False Some assms f l
            have "st' = emit (lit ''Fount '' @ str_nat c4 @ lit '' new tenders for '' @ dept @ lit ''<br>'') st4"
              by (auto simp add: process_department_def Let_def)
            then show ?thesis by (simp add: emit_advance)
          next
            case (Some err)
            with Inr np False \<open>extract_department_link table dept = Some link\<close> assms f l
            have "st' = st4"
              by (auto simp add: process_department_def Let_def)
            then show ?thesis by (simp add: advance_refl)
          qed
          show ?thesis
            by (rule advance_trans [OF a2 advance_trans [OF a3 advance_trans [OF a4 a5]]])
        qed
      qed
    qed
  qed
  with a1 show ?thesis by (rule advance_trans)
qed

lemma department_loop_advance:
  "department_loop net bs table depts st = (e, st') \<Longrightarrow> advance bs st st'"
proof (induction depts arbitrary: st)
  case Nil
  then show ?case by (simp add: advance_refl)
next
  case (Cons d depts)
  obtain e1 s1 where p: "process_department net bs table d st = (e1, s1)"
    by (cases "process_department net bs table d st")
  have a: "advance bs st s1" using p by (rule process_department_advance)
  show ?case
  proof (cases e1)
    case None
    with Cons.prems p have "department_loop net bs table depts s1 = (e, st')" by simp
    then have "advance bs s1 st'" by (rule Cons.IH)
    with a show ?thesis by (rule advance_trans)
  next
    case (Some err)
    with Cons.prems p a show ?thesis by simp
  qed
qed

lemma main_advance:
  assumes "main net bs DEPARTMENTS w seen = (result, st)"
  shows "advance bs (start w seen) st"
proof -
  obtain page st1 where f: "fetch_page net MAIN_URL (start w seen) = (page, st1)"
    by (cases "fetch_page net MAIN_URL (start w seen)")
  have a1: "advance bs (start w seen) st1" using f by (rule fetch_page_advance)
  have "advance bs st1 st"
  proof (cases "page = None \<or> page = Some []")
    case True
    with assms f show ?thesis by (auto simp add: main_def advance_refl)
  next
    case False
    show ?thesis
    proof (cases "get_department_table bs (the page)")
      case None
      with False assms f show ?thesis by (auto simp add: main_def advance_refl)
    next
      case (Some table)
      obtain e2 st2 where l: "department_loop net bs table (departments_to_search DEPARTMENTS) st1 = (e2, st2)"
        by (cases "department_loop net bs table (departments_to_search DEPARTMENTS) st1")
      have a2: "advance bs st1 st2" using l by (rule department_loop_advance)
      show ?thesis
      proof (cases e2)
        case None
        with Some False assms f l
        have "st = send_email (emit (lit ''</body></html>'') st2)"
          by (auto simp add: main_def)
        moreover have "advance bs (emit (lit ''</body></html>'') st2)
            (send_email (emit (lit ''</body></html>'') st2))"
          by (rule advance_quiet [of _ _ "[SendEmail (email_body (emit (lit ''</body></html>'') st2))]"])
            (simp_all add: send_email_def quiet_def)
        ultimately show ?thesis
          by (simp add: advance_trans [OF a2 advance_trans [OF emit_advance]])
      next
        case (Some err)
        with \<open>get_department_table bs (the page) = Some table\<close> False assms f l have "st = st2"
          by (auto simp add: main_def)
        with a2 show ?thesis by simp
      qed
    qed
  qed
  with a1 show ?thesis by (rule advance_trans)
qed

text \<open>
  C1. In every run, however it ends, the collection is what it was at the start followed
  by the ids the run inserted; these are distinct and none was there at the start; and
  each insertion stands in the trace right after the check that did not find the id and
  right before the head of the digest fragment of a tender that \<open>get_tender_value\<close> kept,
  whose id it is, not empty, and whose value is absent or under 3000000.
\<close>

theorem seen_log_insertions:
  assumes "main net bs DEPARTMENTS w seen = (result, st)"
  shows "tender_collection st = seen @ inserted (trace st)
    \<and> distinct (inserted (trace st))
    \<and> set (inserted (trace st)) \<inter> set seen = {}
    \<and> (\<forall>pre tid post. trace st = pre @ InsertOne tid # post \<longrightarrow>
          (\<exists>pre'. pre = pre' @ [FindOne tid False])
          \<and> (\<exists>url html t post'. post = Append (fragment_head url t) # post'
                \<and> get_tender_value bs html = Inr (Some (Kept t))
                \<and> tender_id t = Some tid \<and> tid \<noteq> []
                \<and> (tender_value t = None \<or> the (tender_value t) < 3000000)))"
  using main_advance [OF assms]
  unfolding advance_def guarded_def reported_def
  by (auto simp add: start_def)

section \<open>The small portal, evaluated\<close>

lemmas dom_defs = elem_def table_of_def link_to_def cell_def caption_def lit_def
  find_all_def find_all_class_def first_def find_tag_def get_text_def
  find_string_def find_parent_def find_next_sibling_def find_first_def string_passes_def

lemmas float_defs = convert_def clean_def remove_char_def strip_def py_isspace_def rupee_def lit_def
  upper_def is_lower_def py_float_def to_ascii_def unicode_decimal_def digit_zeros_def
  c_strip_def c_isspace_def is_digit_def
  parse_sign_def lower_def is_upper_def parse_exponent_def digits_val_def decimal64_def
  binary64_def ilog2_def bits.simps py_int_def Let_def

lemma value_cell_text_detail:
  "tid = ''T1'' \<or> tid = ''T2'' \<Longrightarrow> value_cell_text (detail_soup tid amount) = Some (strip amount)"
  by (auto simp add: value_cell_text_def detail_soup_def value_label_def rupee_def py_in_def
      sublist_Cons_right dom_defs)

lemma dates_detail: "get_tender_dates (detail_soup ''T1'' amount) = detail_dates"
  by (simp add: get_tender_dates_def extract_date_def detail_dates_def detail_soup_def value_label_def rupee_def py_in_def
      sublist_Cons_right dom_defs strip_def py_isspace_def)

lemma id_chain_detail:
  "get_tender_id_organization_chain (detail_soup ''T1'' amount) = (Some (lit ''T1''), Some (lit ''PWD''))"
  by (simp add: get_tender_id_organization_chain_def bold_text_def detail_soup_def dom_defs strip_def py_isspace_def)

lemma type_detail: "extract_value (detail_soup ''T1'' amount) (lit ''Tender Type'') = None"
  by (simp add: extract_value_def detail_soup_def value_label_def rupee_def py_in_def lower_def is_upper_def
      sublist_Cons_right dom_defs strip_def py_isspace_def)

lemma get_tender_value_detail:
  assumes "bs html = detail_soup ''T1'' amount"
  shows "get_tender_value bs html =
     (case convert (clean (strip amount)) of
        Inl e \<Rightarrow> if e = ValueError then Inr None else Inl e
      | Inr v \<Rightarrow> if v = None \<or> the v < 3000000 then Inr (Some (Kept (detail_record v)))
                 else Inr (Some SkipOnly))"
  by (simp add: get_tender_value_def assms value_cell_text_detail dates_detail id_chain_detail
      type_detail detail_record_def Let_def split: sum.splits)

lemma convert_2500000: "convert (clean (strip (lit ''25,00,000''))) = Inr (Some 2500000)"
  by (simp add: float_defs)

lemma convert_5000000: "convert (clean (strip (lit ''50,00,000''))) = Inr (Some 5000000)"
  by (simp add: float_defs)

lemma tender1_kept:
  "get_tender_value portal_bs (lit ''tender 1'') = Inr (Some (Kept (detail_record (Some 2500000))))"
proof -
  have "portal_bs (lit ''tender 1'') = detail_soup ''T1'' (lit ''25,00,000'')"
    by (simp add: portal_bs_def portal_with_def lit_def)
  then show ?thesis
    by (simp add: get_tender_value_detail convert_2500000)
qed

lemma tender2_skipped:
  "get_tender_value portal_bs (lit ''tender 2'') = Inr (Some SkipOnly)"
proof -
  have "portal_bs (lit ''tender 2'') = detail_soup ''T2'' (lit ''50,00,000'')"
    by (simp add: portal_bs_def portal_with_def lit_def)
  then show ?thesis
    by (simp add: get_tender_value_def value_cell_text_detail convert_5000000 Let_def)
qed

lemma directory_found:
  "get_department_table portal_bs (lit ''directory'') = Some directory_table"
  by (simp add: get_department_table_def portal_bs_def portal_with_def directory_soup_def
      directory_table_def list_table_def dom_defs)

lemma pwd_link: "extract_department_link directory_table PWD = Some org_url"
  by (simp add: extract_department_link_def directory_table_def org_url_def PWD_def cell_link_def BASE_URL_def
      strip_def py_isspace_def dom_defs)

lemma org_links:
  "get_tender_links_from_org_page portal_bs (lit ''organisation'') = Inr [tender1_url, tender2_url]"
  by (simp add: get_tender_links_from_org_page_def portal_bs_def portal_with_def org_soup_def
      tender1_url_def tender2_url_def cell_link_def BASE_URL_def list_table_def
      strip_def py_isspace_def dom_defs)

lemma fetch_portal:
  "fetch_page portal MAIN_URL st = (Some (lit ''directory''), st\<lparr>world := (), trace := trace st @ [Get MAIN_URL]\<rparr>)"
  "fetch_page portal org_url st = (Some (lit ''organisation''), st\<lparr>world := (), trace := trace st @ [Get org_url]\<rparr>)"
  "fetch_page portal tender1_url st = (Some (lit ''tender 1''), st\<lparr>world := (), trace := trace st @ [Get tender1_url]\<rparr>)"
  "fetch_page portal tender2_url st = (Some (lit ''tender 2''), st\<lparr>world := (), trace := trace st @ [Get tender2_url]\<rparr>)"
  by (simp_all add: fetch_page_def session_get_def portal_def raise_for_status_def py_in_def
      timed_out_def MAIN_URL_def org_url_def tender1_url_def tender2_url_def BASE_URL_def lit_def
      sublist_Cons_right)

lemma pages_nonempty:
  "lit ''directory'' \<noteq> []" "lit ''organisation'' \<noteq> []" "lit ''tender 1'' \<noteq> []" "lit ''tender 2'' \<noteq> []"
  by (simp_all add: lit_def)

lemma departments_PWD: "departments_to_search PWD = [PWD]"
  by (simp add: departments_to_search_def PWD_def lit_def strip_def py_isspace_def)

lemma scenario_run:
  "main portal portal_bs PWD () [] =
     (Finished, \<lparr>world = (), tender_collection = [T1], email_body = digest,
                 failed_tender_html = [], trace = run_trace\<rparr>)"
  apply (simp add: main_def start_def fetch_portal pages_nonempty directory_found departments_PWD
      process_department_def pwd_link org_links process_tender_def tender1_kept tender2_skipped
      Let_def emit_def find_one_def insert_one_def send_email_def detail_record_def detail_dates_def)
  apply (simp add: fragment_head_def fmt_int_def fmt_str_def str_int_def str_nat.simps
      title_def underscores_to_spaces_def is_lower_def is_upper_def
      digest_def run_trace_def T1_def PWD_def found_total_def fount_new_def t1_head_def t1_date_def
      SKIP_def org_url_def tender1_url_def tender2_url_def MAIN_URL_def BASE_URL_def rupee_def lit_def)
  done

lemma org_url_nonempty: "org_url \<noteq> []"
  by (simp add: org_url_def BASE_URL_def lit_def)

lemma directory_found_plain:
  "get_department_table plain_bs (lit ''directory'') = Some directory_table"
  by (simp add: get_department_table_def plain_bs_def directory_soup_def
      directory_table_def list_table_def dom_defs)

lemma org_links_plain:
  "get_tender_links_from_org_page plain_bs (lit ''organisation'') = Inl IndexError"
  by (simp add: get_tender_links_from_org_page_def plain_bs_def list_table_def dom_defs)

lemma convert_examples:
  "convert (clean (rupee # lit ''30,00,000'')) = Inr (Some 3000000)"
  "convert (clean (lit ''3000000'')) = Inr (Some 3000000)"
  "convert (clean (lit ''NA'')) = Inr None"
  "convert (clean (lit ''na'')) = Inr None"
  "convert (clean (lit '''')) = Inr None"
  "convert (clean (lit ''abc'')) = Inl ValueError"
  "convert (clean (lit ''inf'')) = Inl OverflowError"
  by (simp_all add: float_defs)

text \<open>
  Digits of other scripts convert as \<open>float\<close> converts them: 30,00,000 in Devanagari
  digits and 300 in Arabic-Indic digits.
\<close>

lemma convert_other_scripts:
  "convert (clean [2409, 2406, 44, 2406, 2406, 44, 2406, 2406, 2406]) = Inr (Some 3000000)"
  "convert (clean [1635, 1632, 1632]) = Inr (Some 300)"
  by (simp_all add: float_defs)

lemma strip_examples:
  "strip (lit ''inf'') = lit ''inf''"
  "strip (lit ''abc'') = lit ''abc''"
  "strip (lit ''3000000'') = lit ''3000000''"
  "strip (lit ''2999999'') = lit ''2999999''"
  "strip (lit ''NA'') = lit ''NA''"
  by (simp_all add: strip_def py_isspace_def lit_def)

lemma convert_2999999: "convert (clean (lit ''2999999'')) = Inr (Some 2999999)"
  by (simp add: float_defs)

lemma directory_found_with:
  "get_department_table (portal_with amount) (lit ''directory'') = Some directory_table"
  by (simp add: get_department_table_def portal_with_def directory_soup_def
      directory_table_def list_table_def dom_defs)

lemma org_links_with:
  "get_tender_links_from_org_page (portal_with amount) (lit ''organisation'')
     = Inr [tender1_url, tender2_url]"
  by (simp add: get_tender_links_from_org_page_def portal_with_def org_soup_def
      tender1_url_def tender2_url_def cell_link_def BASE_URL_def list_table_def
      strip_def py_isspace_def dom_defs)

lemma tender1_with:
  "get_tender_value (portal_with amount) (lit ''tender 1'') = get_tender_value value_page amount"
proof -
  have "portal_with amount (lit ''tender 1'') = detail_soup ''T1'' amount"
    by (simp add: portal_with_def lit_def)
  then show ?thesis
    by (simp add: get_tender_value_detail value_page_def)
qed

lemma t1_head_eq: "fragment_head tender1_url (detail_record (Some 2500000)) = t1_head"
  by (simp add: fragment_head_def detail_record_def fmt_int_def fmt_str_def str_int_def
      str_nat.simps t1_head_def lit_def)

lemma no_found_new: "\<not> py_in found_new digest"
  by (simp add: py_in_def found_new_def digest_def found_total_def fount_new_def t1_head_def
      t1_date_def tender1_url_def BASE_URL_def rupee_def lit_def sublist_Cons_right)

text \<open>
  The witness of C1: the run on the small portal inserts \<open>T1\<close> once, right after the check
  that did not find it and right before the head of its fragment.
\<close>

theorem seen_log_insertions_witness:
  "inserted run_trace = [T1]
   \<and> (\<exists>pre'. take 6 run_trace = pre' @ [FindOne T1 False])
   \<and> (\<exists>url html t post'. drop 7 run_trace = Append (fragment_head url t) # post'
          \<and> get_tender_value portal_bs html = Inr (Some (Kept t))
          \<and> tender_id t = Some T1 \<and> T1 \<noteq> []
          \<and> (tender_value t = None \<or> the (tender_value t) < 3000000))"
proof -
  have split: "run_trace = take 6 run_trace @ InsertOne T1 # drop 7 run_trace"
    by (simp add: run_trace_def)
  have ins: "inserted run_trace = [T1]"
    by (simp add: run_trace_def)
  from seen_log_insertions [OF scenario_run] have
    "\<forall>pre tid post. run_trace = pre @ InsertOne tid # post \<longrightarrow>
          (\<exists>pre'. pre = pre' @ [FindOne tid False])
          \<and> (\<exists>url html t post'. post = Append (fragment_head url t) # post'
                \<and> get_tender_value portal_bs html = Inr (Some (Kept t))
                \<and> tender_id t = Some tid \<and> tid \<noteq> []
                \<and> (tender_value t = None \<or> the (tender_value t) < 3000000))"
    by simp
  with split ins show ?thesis by blast
qed

section \<open>The outcomes of one tender\<close>

text \<open>
  C7, as amended. After the fetch of a tender page, which leaves the collection, the digest
  and the saved pages as they were: a failed fetch (or an empty page), the skip
  dictionary, a kept record with no id, an empty id or the id \<open>SKIP\<close>, and an id that is
  already in the collection each end the turn with no exception, the counter unchanged
  and nothing added to the digest, the saved pages or the collection; a page that
  \<open>get_tender_value\<close> cannot read, when the name of its file fits, ends the turn with no
  exception too, after the page is saved and the failure line is appended to the digest.
  What happens when the file cannot be written is left out of the statement.
\<close>

theorem tender_outcomes:
  assumes "fetch_page net tender_url st = (page, st1)"
  shows "tender_collection st1 = tender_collection st \<and> email_body st1 = email_body st
    \<and> failed_tender_html st1 = failed_tender_html st
    \<and> (page = None \<or> page = Some [] \<longrightarrow>
          process_tender net bs tender_url count st = (None, count, st1))
    \<and> (\<forall>html. page = Some html \<and> html \<noteq> [] \<longrightarrow>
          (get_tender_value bs html = Inr None \<and> file_name_fits tender_url \<longrightarrow>
             process_tender net bs tender_url count st =
               (None, count,
                st1\<lparr>email_body := email_body st1 @ failure_line tender_url,
                    failed_tender_html := failed_tender_html st1 @ [(safe_url tender_url, html)],
                    trace := trace st1 @ [WriteFile (safe_url tender_url) html,
                                          Append (failure_line tender_url)]\<rparr>))
          \<and> (get_tender_value bs html = Inr (Some SkipOnly) \<longrightarrow>
                process_tender net bs tender_url count st = (None, count, st1))
          \<and> (\<forall>t. get_tender_value bs html = Inr (Some (Kept t)) \<longrightarrow>
                (tender_id t = None \<or> tender_id t = Some [] \<or> tender_id t = Some SKIP \<longrightarrow>
                   process_tender net bs tender_url count st = (None, count, st1))
                \<and> (\<forall>tid. tender_id t = Some tid \<and> tid \<noteq> [] \<and> tid \<noteq> SKIP
                        \<and> tid \<in> set (tender_collection st) \<longrightarrow>
                      process_tender net bs tender_url count st =
                        (None, count, st1\<lparr>trace := trace st1 @ [FindOne tid True]\<rparr>))))"
  using assms fetch_page_quiet(2-4) [OF assms]
  by (auto simp add: process_tender_def find_one_def SKIP_def lit_def save_failed_html_def emit_def)

text \<open>
  The model does not hide the failure the statement leaves out: with a file name that
  does not fit, a page that cannot be read ends the run with \<open>OSError\<close>.
\<close>

lemma unreadable_page_long_name:
  assumes "fetch_page net tender_url st = (Some html, st1)" and "html \<noteq> []"
    and "get_tender_value bs html = Inr None" and "\<not> file_name_fits tender_url"
  shows "process_tender net bs tender_url count st = (Some OSError, count, st1)"
  using assms by (simp add: process_tender_def save_failed_html_def)

text \<open>
  The same detail page, with a kept record whose id is present, not empty and not
  \<open>SKIP\<close>, is processed in a run whose collection does not hold the id and again in a run
  that starts from the collection the first one left. The first turn inserts the id
  once, appends the fragment and counts the tender; the second ends at the check that
  finds the id, inserts nothing and appends nothing.
\<close>

lemma same_page_in_two_runs:
  assumes "fetch_page net1 tender_url st = (Some detail_html, st1)"
    and "fetch_page net2 tender_url st' = (Some detail_html, st2)"
    and "detail_html \<noteq> []"
    and "get_tender_value bs detail_html = Inr (Some (Kept t))"
    and "tender_id t = Some tid" and "tid \<noteq> []" and "tid \<noteq> SKIP"
    and "tid \<notin> set (tender_collection st)"
    and "process_tender net1 bs tender_url count st = (e, count1, sa)"
    and "tender_collection st' = tender_collection sa"
    and "process_tender net2 bs tender_url count' st' = (e', count2, sb)"
  shows "e = None \<and> count1 = count + 1
    \<and> tender_collection sa = tender_collection st @ [tid]
    \<and> email_body sa = email_body st @ fragment tender_url t
    \<and> e' = None \<and> count2 = count'
    \<and> tender_collection sb = tender_collection sa
    \<and> email_body sb = email_body st'
    \<and> trace sb = trace st2 @ [FindOne tid True]"
proof -
  note k1 = fetch_page_quiet(2-4) [OF assms(1)]
  note k2 = fetch_page_quiet(2-4) [OF assms(2)]
  have first_run: "e = None \<and> count1 = count + 1
      \<and> tender_collection sa = tender_collection st @ [tid]
      \<and> email_body sa = email_body st @ fragment tender_url t"
    using assms(1,3-9) k1
    by (auto simp add: process_tender_def find_one_def insert_one_def emit_def emit_dates_trace
        fragment_def)
  then have "tid \<in> set (tender_collection st')" using assms(10) by simp
  then have "e' = None \<and> count2 = count' \<and> tender_collection sb = tender_collection st'
      \<and> email_body sb = email_body st' \<and> trace sb = trace st2 @ [FindOne tid True]"
    using assms(2-7,11) k2
    by (auto simp add: process_tender_def find_one_def)
  with first_run assms(10) show ?thesis by simp
qed

section \<open>Exceptions that leave the run\<close>

text \<open>
  C3 fails on the code. On an organisation page with no table of class \<open>list_table\<close>,
  \<open>get_tender_links_from_org_page\<close> raises \<open>IndexError\<close> where its sibling
  \<open>get_department_table\<close> returns \<open>None\<close>, and the run on such a portal ends with that
  exception.
\<close>

theorem org_page_without_table:
  "get_tender_links_from_org_page plain_bs (lit ''organisation'') = Inl IndexError
   \<and> get_department_table plain_bs (lit ''organisation'') = None
   \<and> fst (main portal plain_bs PWD () []) = Raised IndexError"
  by (simp add: main_def start_def fetch_portal pages_nonempty directory_found_plain departments_PWD
      process_department_def pwd_link org_links_plain Let_def emit_def org_url_nonempty)
    (simp add: get_department_table_def plain_bs_def list_table_def dom_defs)

text \<open>
  C5 fails on the code at the value text \<open>inf\<close>: \<open>float\<close> accepts it, \<open>int\<close> raises
  \<open>OverflowError\<close>, which the \<open>except ValueError\<close> does not catch, and the run ends with
  it. The other texts of the claim convert as it says.
\<close>

theorem infinity_not_caught:
  "convert (clean (lit ''inf'')) = Inl OverflowError
   \<and> get_tender_value value_page (lit ''inf'') = Inl OverflowError
   \<and> fst (main portal (portal_with (lit ''inf'')) PWD () []) = Raised OverflowError
   \<and> get_tender_value value_page (lit ''abc'') = Inr None
   \<and> convert (clean (rupee # lit ''30,00,000'')) = Inr (Some 3000000)
   \<and> convert (clean (lit ''3000000'')) = Inr (Some 3000000)
   \<and> convert (clean (lit ''NA'')) = Inr None
   \<and> convert (clean (lit '''')) = Inr None
   \<and> convert (clean (lit ''abc'')) = Inl ValueError"
proof -
  have a: "get_tender_value value_page (lit ''inf'') = Inl OverflowError"
    by (simp add: get_tender_value_detail value_page_def strip_examples convert_examples)
  have b: "get_tender_value value_page (lit ''abc'') = Inr None"
    by (simp add: get_tender_value_detail value_page_def strip_examples convert_examples)
  have c: "fst (main portal (portal_with (lit ''inf'')) PWD () []) = Raised OverflowError"
    by (simp add: main_def start_def fetch_portal pages_nonempty directory_found_with departments_PWD
        process_department_def pwd_link org_links_with process_tender_def tender1_with a
        Let_def emit_def org_url_nonempty)
  show ?thesis using a b c convert_examples by simp
qed

section \<open>The run on the small portal\<close>

text \<open>
  C9 fails on the code in one place. The run on the small portal ends normally, the
  collection gains \<open>T1\<close> only, and the digest holds \<open>Found 2 total tenders\<close> and the
  fragment of \<open>T1\<close>; but the counter line reads \<open>Fount 1 new tenders for Public Works
  Department\<close>, and the text \<open>Found 1 new tenders for Public Works Department\<close> is nowhere
  in the digest.
\<close>

theorem scenario_digest:
  "fst (main portal portal_bs PWD () []) = Finished
   \<and> tender_collection (snd (main portal portal_bs PWD () [])) = [T1]
   \<and> email_body (snd (main portal portal_bs PWD () [])) = digest
   \<and> py_in (lit ''Found 2 total tenders'') digest
   \<and> py_in (fragment tender1_url (detail_record (Some 2500000))) digest
   \<and> py_in (lit ''Fount 1 new tenders for Public Works Department'') digest
   \<and> \<not> py_in found_new digest"
proof -
  have a: "py_in (lit ''Found 2 total tenders'') digest"
    by (simp add: py_in_def digest_def found_total_def lit_def sublist_Cons_right)
  have f: "fragment tender1_url (detail_record (Some 2500000)) = t1_head @ t1_date @ lit ''</p><hr>''"
    by (simp add: fragment_def t1_head_eq)
      (simp add: detail_record_def detail_dates_def t1_date_def title_def underscores_to_spaces_def
        is_lower_def is_upper_def lit_def)
  have b: "py_in (fragment tender1_url (detail_record (Some 2500000))) digest"
    unfolding f py_in_def digest_def
    by (metis append.assoc sublist_appendI)
  have c: "py_in (lit ''Fount 1 new tenders for Public Works Department'') digest"
    by (simp add: py_in_def digest_def found_total_def fount_new_def t1_head_def
      t1_date_def tender1_url_def BASE_URL_def rupee_def lit_def sublist_Cons_right)
  show ?thesis using a b c no_found_new by (simp add: scenario_run)
qed

section \<open>The statements on pages of the small portal\<close>

lemma value_page_text: "value_cell_text (value_page amount) = Some (strip amount)"
  by (simp add: value_page_def value_cell_text_detail)

text \<open>
  The witness of C4: on the detail page of \<open>T1\<close>, the value text \<open>3000000\<close> gives the skip
  dictionary, \<open>2999999\<close> a kept record of that value, and \<open>NA\<close> a kept record of value
  \<open>None\<close>.
\<close>

theorem threshold_classification_witness:
  "get_tender_value value_page (lit ''3000000'') = Inr (Some SkipOnly)
   \<and> (\<exists>t. get_tender_value value_page (lit ''2999999'') = Inr (Some (Kept t))
          \<and> tender_value t = Some 2999999)
   \<and> (\<exists>t. get_tender_value value_page (lit ''NA'') = Inr (Some (Kept t))
          \<and> tender_value t = None)"
proof -
  have a: "convert (clean (strip (lit ''3000000''))) = Inr (Some 3000000)"
    by (simp add: strip_examples convert_examples)
  have b: "convert (clean (strip (lit ''2999999''))) = Inr (Some 2999999)"
    by (simp add: strip_examples convert_2999999)
  have c: "convert (clean (strip (lit ''NA''))) = Inr None"
    by (simp add: strip_examples convert_examples)
  show ?thesis
    using threshold_classification [where bs = value_page and html = "lit ''3000000''",
        OF value_page_text a]
      threshold_classification [where bs = value_page and html = "lit ''2999999''",
        OF value_page_text b]
      threshold_classification [where bs = value_page and html = "lit ''NA''",
        OF value_page_text c]
    by simp
qed




lemma not_timed_out:
  "\<not> py_in timed_out (lit ''abc'')" "\<not> py_in timed_out (lit ''50,00,000'')"
  "\<not> py_in timed_out (lit ''25,00,000'')" "\<not> py_in timed_out (lit ''100'')"
  by (simp_all add: py_in_def timed_out_def lit_def sublist_Cons_right)

lemma fetch_serving:
  "\<not> py_in timed_out page \<Longrightarrow>
   fetch_page (serving page) url st = (Some page, st\<lparr>world := (), trace := trace st @ [Get url]\<rparr>)"
  by (simp add: fetch_page_def session_get_def serving_def raise_for_status_def)

lemma fetch_down:
  "fetch_page down url st = (None, st\<lparr>world := (), trace := trace st @ [Get url]\<rparr>)"
  by (simp add: fetch_page_def session_get_def down_def)

lemma strip_amounts:
  "strip (lit ''50,00,000'') = lit ''50,00,000''"
  "strip (lit ''25,00,000'') = lit ''25,00,000''"
  "strip (lit ''100'') = lit ''100''"
  by (simp_all add: strip_def py_isspace_def lit_def)

lemma convert_100: "convert (clean (lit ''100'')) = Inr (Some 100)"
  by (simp add: float_defs)

lemma value_page_abc: "get_tender_value value_page (lit ''abc'') = Inr None"
  by (simp add: get_tender_value_detail value_page_def strip_examples convert_examples)

lemma value_page_skip: "get_tender_value value_page (lit ''50,00,000'') = Inr (Some SkipOnly)"
  by (simp add: get_tender_value_detail value_page_def convert_5000000)

lemma value_page_kept:
  "get_tender_value value_page (lit ''25,00,000'') = Inr (Some (Kept (detail_record (Some 2500000))))"
  by (simp add: get_tender_value_detail value_page_def convert_2500000)

lemma bare_page_text: "value_cell_text (bare_page amount) = Some (strip amount)"
  by (auto simp add: bare_page_def value_cell_text_def value_label_def rupee_def
      py_in_def sublist_Cons_right dom_defs)

lemma bare_page_id: "get_tender_id_organization_chain (bare_page amount) = (None, None)"
  by (simp add: bare_page_def get_tender_id_organization_chain_def dom_defs)

lemma bare_page_kept:
  "\<exists>t. get_tender_value bare_page (lit ''100'') = Inr (Some (Kept t)) \<and> tender_id t = None"
  by (simp add: get_tender_value_def bare_page_text bare_page_id strip_amounts convert_100 Let_def)

lemma skip_page_text: "value_cell_text (skip_page amount) = Some (strip amount)"
  by (auto simp add: skip_page_def detail_soup_def value_cell_text_def value_label_def rupee_def
      py_in_def sublist_Cons_right dom_defs)

lemma skip_page_id:
  "get_tender_id_organization_chain (skip_page amount) = (Some SKIP, Some (lit ''PWD''))"
  by (simp add: skip_page_def detail_soup_def get_tender_id_organization_chain_def bold_text_def
      SKIP_def strip_def py_isspace_def dom_defs)

lemma skip_page_kept:
  "\<exists>t. get_tender_value skip_page (lit ''100'') = Inr (Some (Kept t))
      \<and> tender_id t = Some SKIP \<and> tender_value t = Some 100"
  by (simp add: get_tender_value_def skip_page_text skip_page_id strip_amounts convert_100 Let_def)

text \<open>
  The witness of C7: a portal that is down, a value that cannot be read, a value over the
  threshold, a page with no id, a page whose id reads \<open>SKIP\<close>, and an id that is in the
  collection already.
\<close>

theorem tender_outcomes_witness:
  "process_tender down value_page tender1_url 0 (start () [])
     = (None, 0, (start () [])\<lparr>trace := [Get tender1_url]\<rparr>)
   \<and> file_name_fits tender1_url
   \<and> process_tender (serving (lit ''abc'')) value_page tender1_url 0 (start () [])
     = (None, 0, (start () [])\<lparr>email_body := lit ''<html><body>'' @ failure_line tender1_url,
                    failed_tender_html := [(safe_url tender1_url, lit ''abc'')],
                    trace := [Get tender1_url, WriteFile (safe_url tender1_url) (lit ''abc''),
                              Append (failure_line tender1_url)]\<rparr>)
   \<and> process_tender (serving (lit ''50,00,000'')) value_page tender1_url 0 (start () [])
     = (None, 0, (start () [])\<lparr>trace := [Get tender1_url]\<rparr>)
   \<and> process_tender (serving (lit ''100'')) bare_page tender1_url 0 (start () [])
     = (None, 0, (start () [])\<lparr>trace := [Get tender1_url]\<rparr>)
   \<and> process_tender (serving (lit ''100'')) skip_page tender1_url 0 (start () [])
     = (None, 0, (start () [])\<lparr>trace := [Get tender1_url]\<rparr>)
   \<and> process_tender (serving (lit ''25,00,000'')) value_page tender1_url 0 (start () [T1])
     = (None, 0, (start () [T1])\<lparr>trace := [Get tender1_url, FindOne T1 True]\<rparr>)"
proof -
  have ne: "lit ''abc'' \<noteq> []" "lit ''50,00,000'' \<noteq> []" "lit ''100'' \<noteq> []" "lit ''25,00,000'' \<noteq> []"
    by (simp_all add: lit_def)
  have id: "tender_id (detail_record (Some 2500000)) = Some T1" "T1 \<noteq> []" "T1 \<noteq> SKIP"
    by (simp_all add: detail_record_def T1_def SKIP_def lit_def)
  obtain t1 where t1: "get_tender_value bare_page (lit ''100'') = Inr (Some (Kept t1))"
      "tender_id t1 = None"
    using bare_page_kept by blast
  obtain t2 where t2: "get_tender_value skip_page (lit ''100'') = Inr (Some (Kept t2))"
      "tender_id t2 = Some SKIP"
    using skip_page_kept by blast
  have fits: "file_name_fits tender1_url"
    by (simp add: file_name_fits_def safe_url_def tender1_url_def BASE_URL_def lit_def)
  show ?thesis
    using tender_outcomes [where bs = value_page and count = 0,
        OF fetch_down [where url = tender1_url and st = "start () []"]]
      tender_outcomes [where bs = value_page and count = 0,
        OF fetch_serving [OF not_timed_out(1), where url = tender1_url and st = "start () []"]]
      tender_outcomes [where bs = value_page and count = 0,
        OF fetch_serving [OF not_timed_out(2), where url = tender1_url and st = "start () []"]]
      tender_outcomes [where bs = bare_page and count = 0,
        OF fetch_serving [OF not_timed_out(4), where url = tender1_url and st = "start () []"]]
      tender_outcomes [where bs = skip_page and count = 0,
        OF fetch_serving [OF not_timed_out(4), where url = tender1_url and st = "start () []"]]
      tender_outcomes [where bs = value_page and count = 0,
        OF fetch_serving [OF not_timed_out(3), where url = tender1_url and st = "start () [T1]"]]
      ne id t1 t2 value_page_abc value_page_skip value_page_kept fits
    by (simp add: start_def)
qed

text \<open>
  C7 as stated fails for a fetch that fails: the turn ends with the digest as it was,
  with no failure line, and no page is saved.
\<close>

theorem fetch_failure_counterexample:
  "fst (fetch_page down tender1_url (start () [])) = None
   \<and> process_tender down value_page tender1_url 0 (start () [])
       = (None, 0, \<lparr>world = (), tender_collection = [], email_body = lit ''<html><body>'',
                     failed_tender_html = [], trace = [Get tender1_url]\<rparr>)"
  by (simp add: process_tender_def fetch_down start_def)

lemma first_run_log:
  "tender_collection (snd (snd (process_tender (serving (lit ''25,00,000'')) value_page tender1_url 0
      (start () [])))) = [T1]"
  by (simp add: process_tender_def fetch_serving not_timed_out value_page_kept start_def)
    (simp add: detail_record_def T1_def SKIP_def lit_def find_one_def
      insert_one_def emit_def emit_dates_trace)

text \<open>
  The page of \<open>T1\<close> in a run with an empty collection, and again in a run that starts from
  the collection the first run left.
\<close>

lemma same_page_in_two_runs_example:
  "tender_collection (snd (snd (process_tender (serving (lit ''25,00,000'')) value_page tender1_url 0
      (start () [])))) = [T1]
   \<and> email_body (snd (snd (process_tender (serving (lit ''25,00,000'')) value_page tender1_url 0
      (start () [])))) = lit ''<html><body>'' @ fragment tender1_url (detail_record (Some 2500000))
   \<and> fst (snd (process_tender (serving (lit ''25,00,000'')) value_page tender1_url 0
      (start () []))) = 1
   \<and> tender_collection (snd (snd (process_tender (serving (lit ''25,00,000'')) value_page tender1_url 0
      (start () [T1])))) = [T1]
   \<and> email_body (snd (snd (process_tender (serving (lit ''25,00,000'')) value_page tender1_url 0
      (start () [T1])))) = lit ''<html><body>''
   \<and> fst (snd (process_tender (serving (lit ''25,00,000'')) value_page tender1_url 0
      (start () [T1]))) = 0"
proof -
  let ?net = "serving (lit ''25,00,000'')"
  let ?p1 = "process_tender ?net value_page tender1_url 0 (start () [])"
  let ?p2 = "process_tender ?net value_page tender1_url 0 (start () [T1])"
  have ne: "lit ''25,00,000'' \<noteq> []" by (simp add: lit_def)
  have id: "tender_id (detail_record (Some 2500000)) = Some T1" "T1 \<noteq> []" "T1 \<noteq> SKIP"
    by (simp_all add: detail_record_def T1_def SKIP_def lit_def)
  have fresh: "T1 \<notin> set (tender_collection (start () []))" by (simp add: start_def)
  have r1: "?p1 = (fst ?p1, fst (snd ?p1), snd (snd ?p1))" by simp
  have r2: "?p2 = (fst ?p2, fst (snd ?p2), snd (snd ?p2))" by simp
  have log: "tender_collection (start () [T1]) = tender_collection (snd (snd ?p1))"
    by (simp add: first_run_log) (simp add: start_def)
  show ?thesis
    using same_page_in_two_runs [OF
        fetch_serving [OF not_timed_out(3), where url = tender1_url and st = "start () []"]
        fetch_serving [OF not_timed_out(3), where url = tender1_url and st = "start () [T1]"]
        ne value_page_kept id fresh r1 log r2]
    by (simp add: start_def)
qed

text \<open>
  C6 fails on the code for a tender whose id reads \<open>SKIP\<close>. Its record is kept by
  \<open>get_tender_value\<close>, with the value 100, under the threshold, and the collection does
  not hold the id; the orchestrator takes the id for the mark of a tender over the
  threshold, so the turn inserts nothing and writes no fragment, in this run and in every
  later one, where the claim has one entry inserted.
\<close>

theorem skip_id_never_inserted:
  "(\<exists>t. get_tender_value skip_page (lit ''100'') = Inr (Some (Kept t))
        \<and> tender_id t = Some (lit ''SKIP'') \<and> tender_value t = Some 100)
   \<and> tender_collection (snd (snd (process_tender (serving (lit ''100'')) skip_page tender1_url 0
        (start () [])))) = []
   \<and> email_body (snd (snd (process_tender (serving (lit ''100'')) skip_page tender1_url 0
        (start () [])))) = lit ''<html><body>''"
proof -
  obtain t where t: "get_tender_value skip_page (lit ''100'') = Inr (Some (Kept t))"
      "tender_id t = Some SKIP" "tender_value t = Some 100"
    using skip_page_kept by blast
  have ne: "lit ''100'' \<noteq> []" by (simp add: lit_def)
  have "process_tender (serving (lit ''100'')) skip_page tender1_url 0 (start () [])
      = (None, 0, (start () [])\<lparr>world := (), trace := [Get tender1_url]\<rparr>)"
    by (simp add: process_tender_def fetch_serving not_timed_out t ne) (simp add: start_def)
  then show ?thesis using t by (auto simp add: start_def SKIP_def)
qed

section \<open>Decimal numerals in the value cell\<close>

text \<open>
  What \<open>float\<close> reads in a decimal numeral: the text consists of digits, or of digits, a
  point and digits, so nothing is stripped, no sign and no exponent is read, and the
  value is the binary64 number nearest to the decimal one.
\<close>

lemma digit_facts:
  assumes "is_digit c"
  shows "c < 127" "\<not> c_isspace c" "c \<noteq> 95" "c \<noteq> 45" "c \<noteq> 43" "c \<noteq> 46"
    "\<not> is_upper c" "\<not> is_lower c" "c \<noteq> 44" "c \<noteq> rupee" "\<not> py_isspace c"
    "c \<noteq> 105" "c \<noteq> 110" "c \<noteq> 78"
  using assms
  by (simp_all add: is_digit_def c_isspace_def is_upper_def is_lower_def rupee_def py_isspace_def)

lemma trim_id:
  assumes "s \<noteq> []" and "\<not> P (hd s)" and "\<not> P (last s)"
  shows "rev (dropWhile P (rev (dropWhile P s))) = s"
proof -
  have a: "dropWhile P s = s" using assms(1,2) by (cases s) simp_all
  obtain y ys where r: "rev s = y # ys" using assms(1) by (cases "rev s") simp_all
  then have "y = last s" using assms(1) by (metis hd_rev list.sel(1))
  then have "dropWhile P (y # ys) = y # ys" using assms(3) by simp
  then have "dropWhile P (rev s) = rev s" by (simp only: r)
  with a show ?thesis by simp
qed

lemma del_underscores_id:
  "95 \<notin> set s \<Longrightarrow> prev \<noteq> 95 \<Longrightarrow> del_underscores prev s = Some s"
  by (induction s arbitrary: prev) auto

lemma numeral_shape:
  assumes "ip \<noteq> []" and "list_all is_digit ip" and "list_all is_digit fp"
  defines "s \<equiv> ip @ (if fp = [] then [] else 46 # fp)"
  shows "s \<noteq> []" "is_digit (hd s)" "is_digit (last s)"
    "\<forall>c \<in> set s. is_digit c \<or> c = 46"
proof -
  show "s \<noteq> []" using assms(1) by (simp add: s_def)
  show "is_digit (hd s)" using assms(1,2) by (cases ip) (simp_all add: s_def)
  show "is_digit (last s)"
    using assms by (cases "fp = []") (auto simp add: s_def list_all_iff)
  show "\<forall>c \<in> set s. is_digit c \<or> c = 46"
    using assms by (auto simp add: s_def list_all_iff)
qed

lemma py_float_decimal:
  assumes "ip \<noteq> []" and "list_all is_digit ip" and "list_all is_digit fp"
  shows "py_float (ip @ (if fp = [] then [] else 46 # fp))
     = Inr (decimal64 False (digits_val (ip @ fp)) (- int (length fp)))"
proof -
  define s where "s = ip @ (if fp = [] then [] else 46 # fp)"
  note sh = numeral_shape [OF assms, folded s_def]
  have all: "\<And>c. c \<in> set s \<Longrightarrow> is_digit c \<or> c = 46" using sh(4) by blast
  have asc: "map to_ascii s = s"
  proof (rule map_idI)
    fix c assume "c \<in> set s"
    from all [OF this] have "c < 127"
      by (elim disjE) (simp add: digit_facts(1), simp)
    then show "to_ascii c = c" by (simp add: to_ascii_def)
  qed
  have trim: "c_strip s = s"
    unfolding c_strip_def
    using sh(1-3) by (intro trim_id) (simp_all add: digit_facts(2))
  have "95 \<notin> set s" using all digit_facts(3) by fastforce
  then have und: "del_underscores 0 s = Some s" by (simp add: del_underscores_id)
  have sign: "parse_sign s = (False, s)"
    using sh(1,2) by (cases s) (auto simp add: parse_sign_def digit_facts(4,5))
  have low: "lower s = s"
    unfolding lower_def
  proof (rule map_idI)
    fix c assume "c \<in> set s"
    from all [OF this] have "\<not> is_upper c"
      by (elim disjE) (simp add: digit_facts(7), simp add: is_upper_def)
    then show "(if is_upper c then c + 32 else c) = c" by simp
  qed
  have nokey: "s \<noteq> lit ''inf''" "s \<noteq> lit ''infinity''" "s \<noteq> lit ''nan''"
    using sh(1,2) by (cases s; auto simp add: lit_def digit_facts(12,13))+
  have ipd: "\<And>x. x \<in> set ip \<Longrightarrow> is_digit x" using assms(2) by (simp add: list_all_iff)
  have fpd: "\<And>x. x \<in> set fp \<Longrightarrow> is_digit x" using assms(3) by (simp add: list_all_iff)
  have tfp: "takeWhile is_digit fp = fp" "dropWhile is_digit fp = []"
    using fpd by (simp_all add: takeWhile_eq_all_conv)
  have nd: "\<not> is_digit 46" by (simp add: is_digit_def)
  show ?thesis
  proof (cases "fp = []")
    case True
    then have s: "s = ip" by (simp add: s_def)
    have ti: "takeWhile is_digit ip = ip" "dropWhile is_digit ip = []"
      using ipd by (simp_all add: takeWhile_eq_all_conv)
    have "py_float s = Inr (decimal64 False (digits_val (ip @ fp)) (- int (length fp)))"
      using True assms(1) nokey
      by (simp add: py_float_def asc trim und sign low parse_exponent_def Let_def)
        (simp add: s ti)
    then show ?thesis by (simp add: s_def)
  next
    case False
    then have s: "s = ip @ 46 # fp" by (simp add: s_def)
    have t: "takeWhile is_digit (ip @ 46 # fp) = ip"
      using ipd nd by (simp add: takeWhile_append2)
    have d: "dropWhile is_digit (ip @ 46 # fp) = 46 # fp"
      using ipd nd by (simp add: dropWhile_append2)
    have "py_float s = Inr (decimal64 False (digits_val (ip @ fp)) (- int (length fp)))"
      using False assms(1) nokey
      by (simp add: py_float_def asc trim und sign low parse_exponent_def Let_def)
        (simp add: s t d tfp)
    then show ?thesis by (simp add: s_def)
  qed
qed

lemma convert_decimal:
  assumes "ip \<noteq> []" and "list_all is_digit ip" and "list_all is_digit fp"
  shows "convert (ip @ (if fp = [] then [] else 46 # fp))
     = (case py_int (decimal64 False (digits_val (ip @ fp)) (- int (length fp))) of
          Inl e \<Rightarrow> Inl e
        | Inr i \<Rightarrow> Inr (Some i))"
proof -
  define s where "s = ip @ (if fp = [] then [] else 46 # fp)"
  note sh = numeral_shape [OF assms, folded s_def]
  have "hd (upper s) = hd s"
    using sh(1,2) by (cases s) (simp_all add: upper_def digit_facts(8))
  moreover have "upper s \<noteq> []" using sh(1) by (simp add: upper_def)
  ultimately have "upper s \<noteq> lit ''NA''"
    using sh(2) digit_facts(14) [of "hd s"] by (auto simp add: lit_def)
  then have "convert s = (case py_float s of
      Inl e \<Rightarrow> Inl e
    | Inr x \<Rightarrow> (case py_int x of Inl e \<Rightarrow> Inl e | Inr i \<Rightarrow> Inr (Some i)))"
    using sh(1) by (simp add: convert_def)
  then show ?thesis
    unfolding s_def by (simp add: py_float_decimal [OF assms])
qed

lemma binary64_shape:
  "binary64 neg n d = Infinite neg \<or> (\<exists>m e. binary64 neg n d = Finite neg m e)"
  by (simp add: binary64_def Let_def)

lemma decimal64_shape:
  "decimal64 neg n k = Infinite neg \<or> (\<exists>m e. decimal64 neg n k = Finite neg m e)"
  unfolding decimal64_def using binary64_shape by simp

lemma py_int_finite: "\<exists>i. py_int (Finite neg m e) = Inr i"
  by (simp add: py_int_def Let_def)

text \<open>
  A decimal numeral whose binary64 value is finite is never unparsable: the conversion
  gives the integer part of that binary64 value, and the filter compares this integer with
  the threshold.
\<close>

lemma decimal_value_truncated:
  assumes "value_cell_text (bs html) = Some value_text"
    and "clean value_text = ip @ (if fp = [] then [] else 46 # fp)"
    and "ip \<noteq> []" and "list_all is_digit ip" and "list_all is_digit fp"
    and "decimal64 False (digits_val (ip @ fp)) (- int (length fp)) \<noteq> Infinite False"
  shows "\<exists>i. py_int (decimal64 False (digits_val (ip @ fp)) (- int (length fp))) = Inr i
      \<and> convert (clean value_text) = Inr (Some i)
      \<and> get_tender_value bs html \<noteq> Inr None
      \<and> (get_tender_value bs html = Inr (Some SkipOnly) \<longleftrightarrow> 3000000 \<le> i)
      \<and> ((\<exists>t. get_tender_value bs html = Inr (Some (Kept t)) \<and> tender_value t = Some i)
            \<longleftrightarrow> i < 3000000)"
proof -
  from decimal64_shape [of False "digits_val (ip @ fp)" "- int (length fp)"] assms(6)
  obtain m e where "decimal64 False (digits_val (ip @ fp)) (- int (length fp)) = Finite False m e"
    by blast
  with py_int_finite [of False m e]
  obtain i where i: "py_int (decimal64 False (digits_val (ip @ fp)) (- int (length fp))) = Inr i"
    by auto
  have c: "convert (clean value_text) = Inr (Some i)"
    by (simp add: assms(2) convert_decimal [OF assms(3-5)] i)
  have "get_tender_value bs html \<noteq> Inr None
      \<and> (get_tender_value bs html = Inr (Some SkipOnly) \<longleftrightarrow> 3000000 \<le> i)
      \<and> ((\<exists>t. get_tender_value bs html = Inr (Some (Kept t)) \<and> tender_value t = Some i)
            \<longleftrightarrow> i < 3000000)"
    using assms(1) c
    by (auto simp add: get_tender_value_def Let_def split: prod.splits)
  with i c show ?thesis by blast
qed

text \<open>
  A quotient from \<open>2 ^ 1024\<close> on has no finite binary64 value: \<open>float\<close> gives infinity.
\<close>

lemma bits_0: "bits 0 = 0"
  by (simp add: bits.simps)

lemma bits_pos: "0 < n \<Longrightarrow> bits n = Suc (bits (n div 2))"
  by (subst bits.simps) simp

lemma bits_bounds: "0 < n \<Longrightarrow> 2 ^ (bits n - 1) \<le> n \<and> n < 2 ^ bits n"
proof (induction n rule: bits.induct)
  case (1 n)
  show ?case
  proof (cases "n div 2 = 0")
    case True
    with "1.prems" have "n = 1" by (simp add: div_eq_0_iff)
    then show ?thesis by (simp add: bits_pos bits_0)
  next
    case False
    then have pos: "0 < n div 2" by simp
    from "1.IH" "1.prems" pos
    have ih: "2 ^ (bits (n div 2) - 1) \<le> n div 2" "n div 2 < 2 ^ bits (n div 2)" by simp_all
    have b: "bits (n div 2) = Suc (bits (n div 2) - 1)" using pos by (simp add: bits_pos)
    have "(2::nat) ^ bits (n div 2) = 2 * 2 ^ (bits (n div 2) - 1)"
      by (subst b) simp
    also have "\<dots> \<le> 2 * (n div 2)" using ih(1) by simp
    also have "\<dots> \<le> n" by simp
    finally have lo: "2 ^ bits (n div 2) \<le> n" .
    have "n < 2 * (n div 2) + 2" by presburger
    also have "\<dots> \<le> 2 * 2 ^ bits (n div 2)" using ih(2) by simp
    finally have hi: "n < 2 * 2 ^ bits (n div 2)" .
    show ?thesis using lo hi "1.prems" by (simp add: bits_pos)
  qed
qed

lemma bits_gt: "2 ^ k \<le> n \<Longrightarrow> k < bits n"
proof -
  assume a: "2 ^ k \<le> n"
  have "0 < (2::nat) ^ k" by simp
  with a have "0 < n" by linarith
  with bits_bounds [of n] have "n < 2 ^ bits n" by simp
  with a have "(2::nat) ^ k < 2 ^ bits n" by (rule le_less_trans)
  then show ?thesis
    using power_less_imp_less_exp [where a = "2::nat" and m = k and n = "bits n"] by simp
qed

lemma ilog2_large:
  assumes "0 < d" and "2 ^ 1024 * d \<le> n"
  shows "1024 \<le> ilog2 n d \<and> d * 2 ^ nat (ilog2 n d) \<le> n"
proof -
  have npos: "0 < n"
  proof -
    have "0 < (2::nat) ^ 1024 * d" using assms(1) by simp
    with assms(2) show ?thesis by linarith
  qed
  have dlo: "2 ^ (bits d - 1) \<le> d" and dhi: "d < 2 ^ bits d"
    using bits_bounds [OF assms(1)] by simp_all
  have nlo: "2 ^ (bits n - 1) \<le> n" using bits_bounds [OF npos] by simp
  have "(2::nat) ^ (1024 + (bits d - 1)) = 2 ^ 1024 * 2 ^ (bits d - 1)"
    by (simp only: power_add)
  also have "\<dots> \<le> 2 ^ 1024 * d" using dlo by (simp only: mult_le_mono2)
  also have "\<dots> \<le> n" by (rule assms(2))
  finally have "1024 + (bits d - 1) < bits n" by (rule bits_gt)
  moreover have "0 < bits d" using assms(1) by (simp add: bits_pos)
  ultimately have big: "bits d + 1024 \<le> bits n" by simp
  define j where "j = bits n - bits d"
  have j: "1024 \<le> j" "bits n = bits d + j" using big by (simp_all add: j_def)
  have k: "int (bits n) - int (bits d) = int j" using j(2) by simp
  have il: "ilog2 n d = (if d * 2 ^ j \<le> n then int j else int j - 1)"
    by (simp add: ilog2_def Let_def k)
  show ?thesis
  proof (cases "d * 2 ^ j \<le> n")
    case True
    with il j(1) show ?thesis by simp
  next
    case False
    have "j \<noteq> 1024"
    proof
      assume "j = 1024"
      with False assms(2) show False by (simp add: mult.commute)
    qed
    with j(1) have j1: "1025 \<le> j" by simp
    then have jj: "bits d + (j - 1) = bits n - 1" using j(2) by simp
    have "d * 2 ^ (j - 1) \<le> 2 ^ bits d * 2 ^ (j - 1)"
      using dhi by (simp only: mult_le_mono1 less_imp_le)
    also have "\<dots> = 2 ^ (bits n - 1)"
      by (simp only: power_add [symmetric] jj)
    also have "\<dots> \<le> n" by (rule nlo)
    finally have "d * 2 ^ (j - 1) \<le> n" .
    moreover have "nat (int j - 1) = j - 1" by simp
    ultimately show ?thesis using il False j1 by simp
  qed
qed

lemma binary64_overflow:
  assumes "0 < d" and "2 ^ 1024 * d \<le> n"
  shows "binary64 neg n d = Infinite neg"
proof -
  define p where "p = ilog2 n d"
  have p: "1024 \<le> p" "d * 2 ^ nat p \<le> n" using ilog2_large [OF assms] by (simp_all add: p_def)
  define e where "e = nat p - 52"
  have e: "max p (- 1022) - 52 = int e" "972 \<le> e" "nat p = e + 52"
    using p(1) by (simp_all add: e_def)
  define q where "q = n div (d * 2 ^ e)"
  define r where "r = n mod (d * 2 ^ e)"
  define m where "m = (if 2 * r < d * 2 ^ e then q else if d * 2 ^ e < 2 * r then q + 1
                 else if even q then q else q + 1)"
  have npos: "n \<noteq> 0"
  proof
    assume "n = 0"
    with assms show False by simp
  qed
  have den: "0 < d * 2 ^ e" using assms(1) by simp
  have "2 ^ 52 * (d * 2 ^ e) = d * (2 ^ e * 2 ^ 52)"
    by (simp only: mult.commute mult.left_commute)
  also have "\<dots> = d * 2 ^ nat p"
    by (simp only: e(3) power_add)
  finally have "2 ^ 52 * (d * 2 ^ e) = d * 2 ^ nat p" .
  with p(2) have "2 ^ 52 * (d * 2 ^ e) \<le> n" by (simp only:)
  then have "2 ^ 52 \<le> q"
    unfolding q_def using den by (simp only: less_eq_div_iff_mult_less_eq)
  moreover have "q \<le> m" by (simp add: m_def)
  ultimately have "2 ^ 52 \<le> m" by (rule le_trans)
  then have "52 < bits m" by (rule bits_gt)
  then have over: "1024 < int (bits m) + int e" using e(2) by simp
  have "binary64 neg n d = (if 1024 < int (bits m) + int e then Infinite neg else Finite neg m (int e))"
    using npos
    by (simp add: binary64_def Let_def p_def [symmetric] e(1) m_def q_def r_def)
  with over show ?thesis by simp
qed

lemma foldl_zeros:
  "foldl (\<lambda>a c. 10 * a + (c - 48)) (a::nat) (replicate n 48) = a * 10 ^ n"
  by (induction n arbitrary: a) simp_all

lemma digits_val_power: "digits_val (49 # replicate n 48) = 10 ^ n"
  by (simp add: digits_val_def foldl_zeros)

text \<open>The value text \<open>29,99,999.99\<close>, step by step.\<close>

lemma bits_examples:
  "bits 299999999 = 29" "bits 100 = 7" "bits 6442450922525164 = 53"
  by (simp_all add: bits.simps)

lemma ilog2_fraction: "ilog2 299999999 100 = 21"
  by (simp add: ilog2_def bits_examples)

lemma binary64_fraction:
  "binary64 False 299999999 100 = Finite False 6442450922525164 (- 31)"
  by (simp add: binary64_def ilog2_fraction Let_def bits_examples)

lemma clean_fraction:
  "clean (strip (lit ''29,99,999.99'')) = lit ''2999999'' @ 46 # lit ''99''"
  by (simp add: clean_def strip_def remove_char_def py_isspace_def rupee_def lit_def)

lemma convert_fraction: "convert (clean (strip (lit ''29,99,999.99''))) = Inr (Some 2999999)"
proof -
  have d: "lit ''2999999'' \<noteq> []" "list_all is_digit (lit ''2999999'')" "list_all is_digit (lit ''99'')"
    by (simp_all add: lit_def is_digit_def)
  have v: "digits_val (lit ''2999999'' @ lit ''99'') = 299999999"
    by (simp add: digits_val_def lit_def)
  have n: "lit ''99'' \<noteq> []" "length (lit ''99'') = 2" by (simp_all add: lit_def)
  have "decimal64 False 299999999 (- 2) = Finite False 6442450922525164 (- 31)"
    by (simp add: decimal64_def binary64_fraction)
  then have "py_int (decimal64 False 299999999 (- 2)) = Inr 2999999"
    by (simp add: py_int_def)
  with convert_decimal [OF d] show ?thesis
    by (simp add: clean_fraction v n)
qed

text \<open>
  A numeral of digits only is left as it is by the cleaning, and from \<open>2 ^ 1024\<close> on its
  conversion raises \<open>OverflowError\<close>.
\<close>

lemma digits_clean:
  assumes "s \<noteq> []" and "list_all is_digit s"
  shows "strip s = s" and "clean s = s"
proof -
  have d: "\<And>c. c \<in> set s \<Longrightarrow> is_digit c" using assms(2) by (simp add: list_all_iff)
  have h: "is_digit (hd s)" "is_digit (last s)" using assms(1) d by simp_all
  show st: "strip s = s"
    unfolding strip_def using assms(1) h by (intro trim_id) (simp_all add: digit_facts(11))
  have "remove_char 44 s = s"
    unfolding remove_char_def using d digit_facts(9) by (intro filter_True) blast
  moreover have "remove_char rupee s = s"
    unfolding remove_char_def using d digit_facts(10) by (intro filter_True) blast
  ultimately show "clean s = s" by (simp add: clean_def st)
qed

lemma convert_overflow:
  assumes "ip \<noteq> []" and "list_all is_digit ip" and "2 ^ 1024 \<le> digits_val ip"
  shows "convert ip = Inl OverflowError"
proof -
  have "decimal64 False (digits_val ip) 0 = Infinite False"
    unfolding decimal64_def
    using binary64_overflow [where d = 1 and n = "digits_val ip" and neg = False] assms(3)
    by simp
  then show ?thesis
    using convert_decimal [where ip = ip and fp = "[]", OF assms(1,2)]
    by (simp add: py_int_def)
qed

lemma huge_amount_digits: "huge_amount \<noteq> [] \<and> list_all is_digit huge_amount"
  by (simp add: huge_amount_def is_digit_def list_all_iff)

lemma huge_amount_val: "digits_val huge_amount = 10 ^ 309"
  unfolding huge_amount_def by (rule digits_val_power)

lemma huge_amount_convert:
  "clean (strip huge_amount) = huge_amount"
  "convert (clean (strip huge_amount)) = Inl OverflowError"
proof -
  note d = huge_amount_digits [THEN conjunct1] huge_amount_digits [THEN conjunct2]
  show c: "clean (strip huge_amount) = huge_amount"
    by (simp only: digits_clean [OF d])
  have "(2::nat) ^ 1024 \<le> 10 ^ 309" by simp
  then have "2 ^ 1024 \<le> digits_val huge_amount" by (simp only: huge_amount_val)
  from convert_overflow [OF d this] show "convert (clean (strip huge_amount)) = Inl OverflowError"
    by (simp only: c)
qed

text \<open>
  C10 fails on the code at the numeral \<open>1\<close> followed by 309 zeros. The cleaning leaves
  it as it is, \<open>float\<close> gives infinity, \<open>int\<close> raises \<open>OverflowError\<close>, which the
  \<open>except ValueError\<close> does not catch: no integer is compared with the threshold, and the
  run ends with the exception. The value text \<open>29,99,999.99\<close> gives a kept record of value
  2999999, as the claim says.
\<close>

theorem huge_numeral_not_converted:
  "clean (strip huge_amount) = huge_amount
   \<and> convert (clean (strip huge_amount)) = Inl OverflowError
   \<and> get_tender_value value_page huge_amount = Inl OverflowError
   \<and> fst (main portal (portal_with huge_amount) PWD () []) = Raised OverflowError
   \<and> get_tender_value value_page (lit ''29,99,999.99'')
       = Inr (Some (Kept (detail_record (Some 2999999))))"
proof -
  have a: "get_tender_value value_page huge_amount = Inl OverflowError"
    by (simp add: get_tender_value_detail value_page_def huge_amount_convert(2))
  have b: "fst (main portal (portal_with huge_amount) PWD () []) = Raised OverflowError"
    by (simp add: main_def start_def fetch_portal pages_nonempty directory_found_with departments_PWD
        process_department_def pwd_link org_links_with process_tender_def tender1_with a
        Let_def emit_def org_url_nonempty)
  have c: "get_tender_value value_page (lit ''29,99,999.99'')
       = Inr (Some (Kept (detail_record (Some 2999999))))"
    by (simp add: get_tender_value_detail value_page_def convert_fraction)
  show ?thesis using a b c huge_amount_convert by simp
qed

end
